theory Spec2Isabelle
  imports Main
begin

section \<open>Python values, errors and the terminal\<close>

text \<open>
  The module \<^verbatim>\<open>preptools/prep.py\<close> handles untyped Python values: the attributes of
  the argparse namespace, the entries of the configuration dictionary, the parameters of a
  governance call and the answers of the RPC client. They are modelled by one datatype.
  A dictionary is an association list in insertion order.
\<close>

datatype pyval =
    PNone
  | PBool bool
  | PInt int
  | PStr string
  | PList "pyval list"
  | PDict "(string \<times> pyval) list"

type_synonym dict = "(string \<times> pyval) list"

text \<open>Python's truth value of an object, as tested by \<^verbatim>\<open>if not ret\<close>.\<close>

fun truthy :: "pyval \<Rightarrow> bool" where
  "truthy PNone = False"
| "truthy (PBool b) = b"
| "truthy (PInt i) = (i \<noteq> 0)"
| "truthy (PStr s) = (s \<noteq> [])"
| "truthy (PList xs) = (xs \<noteq> [])"
| "truthy (PDict d) = (d \<noteq> [])"

text \<open>
  Exceptions are values. \<open>KeyStoreException\<close> carries \<^verbatim>\<open>e.args[0]\<close>, \<open>SystemExit\<close> the
  exit status; \<open>Raised\<close> stands for any other exception of a collaborator.
\<close>

datatype error =
    KeyStoreException string
  | SystemExit int
  | TypeError string
  | KeyError string
  | AttributeError string
  | EOFError
  | Raised string

section \<open>Envelopes built by the SDK builders\<close>

text \<open>The fields set on \<^verbatim>\<open>CallTransactionBuilder\<close> in \<^verbatim>\<open>TxHandler._call_tx\<close>.\<close>

record transaction =
  tx_from :: string
  tx_to :: string
  tx_step_limit :: int
  tx_version :: int
  tx_nid :: pyval
  tx_method :: string
  tx_params :: pyval
  tx_value :: int

text \<open>The fields set on \<^verbatim>\<open>CallBuilder\<close> in \<^verbatim>\<open>PrepReader._call\<close>.\<close>

record call =
  call_from :: string
  call_to :: string
  call_method :: string
  call_params :: pyval

text \<open>
  \<^verbatim>\<open>to_dict()\<close> of a built object: the dictionary handed to the hook. Its key layout
  belongs to the SDK, so the dictionary is represented by the object it was made from.
\<close>

datatype content = TransactionDict transaction | CallDict call

record signed_transaction =
  stx_transaction :: transaction
  stx_signature :: string

section \<open>Collaborators\<close>

text \<open>
  The wallet: \<^verbatim>\<open>get_address()\<close> and the signing primitive used by
  \<^verbatim>\<open>SignedTransaction\<close>, which gives a signature or raises.
\<close>

record wallet =
  get_address :: string
  sign :: "transaction \<Rightarrow> error + string"

text \<open>
  The RPC client \<^verbatim>\<open>IconService\<close>: each method answers with a value or raises.
  The second argument is \<^verbatim>\<open>full_response\<close>.
\<close>

record icon_service =
  send_transaction :: "signed_transaction \<Rightarrow> bool \<Rightarrow> error + pyval"
  call_query :: "call \<Rightarrow> bool \<Rightarrow> error + pyval"
  get_transaction_result :: "pyval \<Rightarrow> bool \<Rightarrow> error + pyval"
  get_transaction :: "pyval \<Rightarrow> bool \<Rightarrow> error + pyval"

text \<open>What is written to standard output, and the lines waiting on standard input.\<close>

datatype printed =
    PrintTitle string nat
  | PrintDict content
  | PrintLine string
  | Prompt string

record terminal =
  out :: "printed list"
  inp :: "string list"

text \<open>
  Every call this layer makes to a collaborator is recorded, in order: the builders, the
  hook, the signing, the RPC client and the keystore. The trace holds the calls of this
  layer only; what a hook does by itself is seen on the terminal.
\<close>

datatype event =
    TxBuilt transaction
  | CallBuilt call
  | HookCalled content
  | Signed transaction string
  | SendTransaction signed_transaction bool
  | Call call bool
  | GetTransactionResult pyval bool
  | GetTransaction pyval bool
  | ServiceOpened pyval
  | WalletLoad pyval pyval

record world =
  trace :: "event list"
  terminal :: terminal

type_synonym 'a io = "world \<Rightarrow> (error + 'a) \<times> world"

text \<open>
  A hook is a \<^verbatim>\<open>callable(dict)\<close>: it reads and writes the terminal and returns a value
  or raises.
\<close>

type_synonym hook = "content \<Rightarrow> terminal \<Rightarrow> (error + pyval) \<times> terminal"

text \<open>
  The parts of the repository and of the SDK that \<^verbatim>\<open>prep.py\<close> imports and that are
  not in the source tree are parameters: the constants of \<^verbatim>\<open>utils.constants\<close>,
  \<^verbatim>\<open>get_default_config\<close>, \<^verbatim>\<open>get_url\<close>, reading a JSON file
  (\<^verbatim>\<open>open\<close> and \<^verbatim>\<open>json.load\<close>), \<^verbatim>\<open>KeyWallet.load\<close> and
  \<^verbatim>\<open>IconService(HTTPProvider(url))\<close>.
\<close>

record externals =
  ZERO_ADDRESS :: string
  EOA_ADDRESS :: string
  COLUMN :: nat
  get_default_config :: dict
  get_url :: "pyval \<Rightarrow> pyval"
  json_load_file :: "pyval \<Rightarrow> error + dict"
  sdk_KeyWallet_load :: "pyval \<Rightarrow> pyval \<Rightarrow> error + wallet"
  sdk_IconService :: "pyval \<Rightarrow> icon_service"

definition log :: "event \<Rightarrow> world \<Rightarrow> world" where
  "log e w = w\<lparr>trace := trace w @ [e]\<rparr>"

definition run_hook :: "hook \<Rightarrow> content \<Rightarrow> pyval io" where
  "run_hook h c w =
     (case h c (terminal w) of
        (r, t') \<Rightarrow> (r, (log (HookCalled c) w)\<lparr>terminal := t'\<rparr>))"

text \<open>
  \<^verbatim>\<open>SignedTransaction(transaction, owner)\<close> is a constructor of the SDK: it signs the
  envelope with the wallet and returns the signed envelope, or raises what the signing
  raised.
\<close>

definition SignedTransaction :: "transaction \<Rightarrow> wallet \<Rightarrow> signed_transaction io" where
  "SignedTransaction t owner w =
     (case sign owner t of
        Inl e \<Rightarrow> (Inl e, log (Signed t (get_address owner)) w)
      | Inr sg \<Rightarrow>
          (Inr \<lparr>stx_transaction = t, stx_signature = sg\<rparr>,
           log (Signed t (get_address owner)) w))"

definition IconService_send_transaction :: "icon_service \<Rightarrow> signed_transaction \<Rightarrow> bool \<Rightarrow> pyval io" where
  "IconService_send_transaction svc stx full w =
     (send_transaction svc stx full, log (SendTransaction stx full) w)"

definition IconService_call :: "icon_service \<Rightarrow> call \<Rightarrow> bool \<Rightarrow> pyval io" where
  "IconService_call svc c full w = (call_query svc c full, log (Call c full) w)"

definition IconService_get_transaction_result :: "icon_service \<Rightarrow> pyval \<Rightarrow> bool \<Rightarrow> pyval io" where
  "IconService_get_transaction_result svc h full w =
     (get_transaction_result svc h full, log (GetTransactionResult h full) w)"

definition IconService_get_transaction :: "icon_service \<Rightarrow> pyval \<Rightarrow> bool \<Rightarrow> pyval io" where
  "IconService_get_transaction svc h full w =
     (get_transaction svc h full, log (GetTransaction h full) w)"

definition IconService :: "externals \<Rightarrow> pyval \<Rightarrow> world \<Rightarrow> icon_service \<times> world" where
  "IconService ext url w = (sdk_IconService ext url, log (ServiceOpened url) w)"

definition KeyWallet_load :: "externals \<Rightarrow> pyval \<Rightarrow> pyval \<Rightarrow> wallet io" where
  "KeyWallet_load ext path password w =
     (sdk_KeyWallet_load ext path password, log (WalletLoad path password) w)"

text \<open>\<^verbatim>\<open>print\<close>, \<^verbatim>\<open>input\<close> and \<^verbatim>\<open>getpass.getpass\<close> on the terminal.\<close>

definition emit :: "printed \<Rightarrow> terminal \<Rightarrow> terminal" where
  "emit x t = t\<lparr>out := out t @ [x]\<rparr>"

definition input :: "string \<Rightarrow> terminal \<Rightarrow> (error + string) \<times> terminal" where
  "input prompt t =
     (case inp t of
        [] \<Rightarrow> (Inl EOFError, emit (Prompt prompt) t)
      | l # ls \<Rightarrow> (Inr l, (emit (Prompt prompt) t)\<lparr>inp := ls\<rparr>))"

definition getpass :: "string \<Rightarrow> terminal \<Rightarrow> (error + string) \<times> terminal" where
  "getpass prompt t = input prompt t"

section \<open>The module\<close>

definition print_request :: "externals \<Rightarrow> string \<Rightarrow> content \<Rightarrow> terminal \<Rightarrow> terminal" where
  "print_request ext title c t =
     emit (PrintLine '''') (emit (PrintDict c) (emit (PrintTitle title (COLUMN ext)) t))"

subsection \<open>TxHandler\<close>

record TxHandler =
  th_icon_service :: icon_service
  th_nid :: pyval
  th_on_send_request :: "hook option"

definition TxHandler_call_on_send_request :: "TxHandler \<Rightarrow> content \<Rightarrow> pyval io" where
  "TxHandler_call_on_send_request th c w =
     (case th_on_send_request th of
        Some h \<Rightarrow> run_hook h c w
      | None \<Rightarrow> (Inr (PBool False), w))"

definition TxHandler_call_tx ::
  "TxHandler \<Rightarrow> wallet \<Rightarrow> string \<Rightarrow> string \<Rightarrow> pyval \<Rightarrow> int \<Rightarrow> int \<Rightarrow> pyval io" where
  "TxHandler_call_tx th owner to method params limit val w =
     (let t = \<lparr>tx_from = get_address owner, tx_to = to, tx_step_limit = limit,
                tx_version = 3, tx_nid = th_nid th, tx_method = method,
                tx_params = params, tx_value = val\<rparr>;
          w0 = log (TxBuilt t) w
      in case TxHandler_call_on_send_request th (TransactionDict t) w0 of
           (Inl e, w1) \<Rightarrow> (Inl e, w1)
         | (Inr ret, w1) \<Rightarrow>
             if \<not> truthy ret then (Inr PNone, w1)
             else (case SignedTransaction t owner w1 of
                     (Inl e, w2) \<Rightarrow> (Inl e, w2)
                   | (Inr stx, w2) \<Rightarrow>
                       IconService_send_transaction (th_icon_service th) stx True w2))"

definition TxHandler_call ::
  "TxHandler \<Rightarrow> wallet \<Rightarrow> string \<Rightarrow> string \<Rightarrow> pyval \<Rightarrow> int \<Rightarrow> int \<Rightarrow> pyval io" where
  "TxHandler_call th owner to method params limit val =
     TxHandler_call_tx th owner to method params limit val"

subsection \<open>PrepWriter\<close>

record PrepWriter =
  pw_icon_service :: icon_service
  pw_owner :: wallet
  pw_nid :: pyval
  pw_on_send_request :: "hook option"

definition PrepWriter_init :: "icon_service \<Rightarrow> pyval \<Rightarrow> wallet \<Rightarrow> PrepWriter" where
  "PrepWriter_init service nid owner =
     \<lparr>pw_icon_service = service, pw_owner = owner, pw_nid = nid, pw_on_send_request = None\<rparr>"

definition PrepWriter_set_on_send_request :: "PrepWriter \<Rightarrow> hook \<Rightarrow> PrepWriter" where
  "PrepWriter_set_on_send_request pw func = pw\<lparr>pw_on_send_request := Some func\<rparr>"

definition PrepWriter_create_tx_handler :: "PrepWriter \<Rightarrow> TxHandler" where
  "PrepWriter_create_tx_handler pw =
     \<lparr>th_icon_service = pw_icon_service pw, th_nid = pw_nid pw,
      th_on_send_request = pw_on_send_request pw\<rparr>"

definition PrepWriter_call ::
  "externals \<Rightarrow> PrepWriter \<Rightarrow> string \<Rightarrow> pyval \<Rightarrow> int \<Rightarrow> int \<Rightarrow> pyval io" where
  "PrepWriter_call ext pw method params step_limit val =
     (let tx_handler = PrepWriter_create_tx_handler pw
      in TxHandler_call tx_handler (pw_owner pw) (ZERO_ADDRESS ext) method params step_limit val)"

text \<open>The default of \<^verbatim>\<open>step_limit\<close> in \<^verbatim>\<open>PrepWriter._call\<close>, \<^verbatim>\<open>0x10000000\<close>.\<close>

definition default_step_limit :: int where
  "default_step_limit = 268435456"

definition register_prep :: "externals \<Rightarrow> PrepWriter \<Rightarrow> pyval \<Rightarrow> pyval io" where
  "register_prep ext pw params =
     PrepWriter_call ext pw ''registerPRep'' params default_step_limit (2000 * 10 ^ 18)"

definition unregister_prep :: "externals \<Rightarrow> PrepWriter \<Rightarrow> pyval io" where
  "unregister_prep ext pw =
     PrepWriter_call ext pw ''unregisterPRep'' (PDict []) default_step_limit 0"

definition set_prep :: "externals \<Rightarrow> PrepWriter \<Rightarrow> pyval \<Rightarrow> pyval io" where
  "set_prep ext pw params =
     PrepWriter_call ext pw ''setPRep'' params default_step_limit 0"

definition set_governance_variables :: "externals \<Rightarrow> PrepWriter \<Rightarrow> pyval \<Rightarrow> pyval io" where
  "set_governance_variables ext pw params =
     PrepWriter_call ext pw ''setGovernanceVariables'' params default_step_limit 0"

subsection \<open>PrepReader\<close>

record PrepReader =
  pr_icon_service :: icon_service
  pr_nid :: pyval
  pr_from :: string
  pr_on_send_request :: "hook option"

definition PrepReader_init :: "icon_service \<Rightarrow> pyval \<Rightarrow> string \<Rightarrow> PrepReader" where
  "PrepReader_init service nid address =
     \<lparr>pr_icon_service = service, pr_nid = nid, pr_from = address, pr_on_send_request = None\<rparr>"

definition PrepReader_set_on_send_request :: "PrepReader \<Rightarrow> hook \<Rightarrow> PrepReader" where
  "PrepReader_set_on_send_request pr func = pr\<lparr>pr_on_send_request := Some func\<rparr>"

text \<open>
  \<^verbatim>\<open>self.on_send_request(call.to_dict())\<close> calls whatever the slot holds: calling
  \<^verbatim>\<open>None\<close> raises \<^verbatim>\<open>TypeError\<close>. The value the hook returns is dropped.
\<close>

definition PrepReader_call :: "externals \<Rightarrow> PrepReader \<Rightarrow> string \<Rightarrow> pyval \<Rightarrow> pyval io" where
  "PrepReader_call ext pr method params w =
     (let c = \<lparr>call_from = pr_from pr, call_to = ZERO_ADDRESS ext,
                call_method = method, call_params = params\<rparr>;
          w0 = log (CallBuilt c) w
      in case pr_on_send_request pr of
           None \<Rightarrow> (Inl (TypeError ''NoneType object is not callable''), w0)
         | Some h \<Rightarrow>
             (case run_hook h (CallDict c) w0 of
                (Inl e, w1) \<Rightarrow> (Inl e, w1)
              | (Inr _, w1) \<Rightarrow> IconService_call (pr_icon_service pr) c True w1))"

definition PrepReader_tx_result :: "PrepReader \<Rightarrow> pyval \<Rightarrow> pyval io" where
  "PrepReader_tx_result pr tx_hash =
     IconService_get_transaction_result (pr_icon_service pr) tx_hash True"

definition PrepReader_tx_by_hash :: "PrepReader \<Rightarrow> pyval \<Rightarrow> pyval io" where
  "PrepReader_tx_by_hash pr tx_hash =
     IconService_get_transaction (pr_icon_service pr) tx_hash True"

definition get_prep :: "externals \<Rightarrow> PrepReader \<Rightarrow> pyval \<Rightarrow> pyval io" where
  "get_prep ext pr address =
     (let params = PDict [(''address'', address)]
      in PrepReader_call ext pr ''getPRep'' params)"

definition get_preps :: "externals \<Rightarrow> PrepReader \<Rightarrow> pyval \<Rightarrow> pyval io" where
  "get_preps ext pr params = PrepReader_call ext pr ''getPReps'' params"

definition get_tx_result :: "PrepReader \<Rightarrow> pyval \<Rightarrow> pyval io" where
  "get_tx_result pr tx_hash = PrepReader_tx_result pr tx_hash"

definition get_tx_by_hash :: "PrepReader \<Rightarrow> pyval \<Rightarrow> pyval io" where
  "get_tx_by_hash pr tx_hash = PrepReader_tx_by_hash pr tx_hash"

subsection \<open>Configuration and the argparse namespace\<close>

text \<open>
  \<^verbatim>\<open>hasattr\<close>, \<^verbatim>\<open>getattr\<close> on the namespace and \<^verbatim>\<open>conf[k]\<close>, \<^verbatim>\<open>conf[k] = v\<close> on a
  dictionary. Reading a missing attribute or key raises.
\<close>

definition hasattr :: "dict \<Rightarrow> string \<Rightarrow> bool" where
  "hasattr args attr = (map_of args attr \<noteq> None)"

definition getattr :: "dict \<Rightarrow> string \<Rightarrow> error + pyval" where
  "getattr args attr =
     (case map_of args attr of None \<Rightarrow> Inl (AttributeError attr) | Some v \<Rightarrow> Inr v)"

definition getitem :: "dict \<Rightarrow> string \<Rightarrow> error + pyval" where
  "getitem conf k = (case map_of conf k of None \<Rightarrow> Inl (KeyError k) | Some v \<Rightarrow> Inr v)"

fun setitem :: "dict \<Rightarrow> string \<Rightarrow> pyval \<Rightarrow> dict" where
  "setitem [] k v = [(k, v)]"
| "setitem ((k', v') # d) k v = (if k' = k then (k, v) # d else (k', v') # setitem d k v)"

definition replace_attribute :: "string \<Rightarrow> dict \<Rightarrow> dict \<Rightarrow> error + pyval" where
  "replace_attribute attr args conf =
     (if hasattr args attr then
        (case getattr args attr of
           Inl e \<Rightarrow> Inl e
         | Inr v \<Rightarrow> if v \<noteq> PNone then getattr args attr else getitem conf attr)
      else getitem conf attr)"

text \<open>The loop \<^verbatim>\<open>for k in tmp_conf: conf[k] = tmp_conf[k]\<close>, over the keys of the file.\<close>

fun update_conf :: "string list \<Rightarrow> dict \<Rightarrow> dict \<Rightarrow> error + dict" where
  "update_conf [] tmp_conf conf = Inr conf"
| "update_conf (k # ks) tmp_conf conf =
     (case getitem tmp_conf k of
        Inl e \<Rightarrow> Inl e
      | Inr v \<Rightarrow> update_conf ks tmp_conf (setitem conf k v))"

definition get_common_args :: "externals \<Rightarrow> dict \<Rightarrow> error + (pyval \<times> pyval \<times> pyval)" where
  "get_common_args ext args =
     (case (if hasattr args ''config'' \<and> getattr args ''config'' \<noteq> Inr PNone then
              (case getattr args ''config'' of
                 Inl e \<Rightarrow> Inl e
               | Inr path \<Rightarrow>
                   (case json_load_file ext path of
                      Inl e \<Rightarrow> Inl e
                    | Inr tmp_conf \<Rightarrow>
                        update_conf (map fst tmp_conf) tmp_conf (get_default_config ext)))
            else Inr (get_default_config ext)) of
        Inl e \<Rightarrow> Inl e
      | Inr conf \<Rightarrow>
          (case replace_attribute ''url'' args conf of
             Inl e \<Rightarrow> Inl e
           | Inr u \<Rightarrow>
               (let url = get_url ext u
                in case replace_attribute ''nid'' args conf of
                     Inl e \<Rightarrow> Inl e
                   | Inr nid \<Rightarrow>
                       (case replace_attribute ''keystore'' args conf of
                          Inl e \<Rightarrow> Inl e
                        | Inr keystore_path \<Rightarrow> Inr (url, nid, keystore_path)))))"

subsection \<open>Session factory\<close>

definition confirm_callback :: "externals \<Rightarrow> content \<Rightarrow> pyval \<Rightarrow> terminal \<Rightarrow> (error + pyval) \<times> terminal" where
  "confirm_callback ext c yes t =
     (let t1 = print_request ext ''Request'' c t
      in if \<not> truthy yes then
           (case input ''> Continue? [Y/n]'' t1 of
              (Inl e, t2) \<Rightarrow> (Inl e, t2)
            | (Inr ret, t2) \<Rightarrow>
                if ret = ''n'' then (Inr (PBool False), t2) else (Inr (PBool True), t2))
         else (Inr (PBool True), t1))"

text \<open>
  The reader's hook, \<^verbatim>\<open>functools.partial(_print_request, "Request")\<close>: it prints and
  returns \<^verbatim>\<open>None\<close>.
\<close>

definition print_request_callback :: "externals \<Rightarrow> hook" where
  "print_request_callback ext c t = (Inr PNone, print_request ext ''Request'' c t)"

definition create_reader :: "externals \<Rightarrow> pyval \<Rightarrow> pyval \<Rightarrow> world \<Rightarrow> PrepReader \<times> world" where
  "create_reader ext url nid w =
     (let url' = get_url ext url
      in case IconService ext url' w of
           (icon_service, w1) \<Rightarrow> (PrepReader_init icon_service nid (EOA_ADDRESS ext), w1))"

definition create_reader_by_args :: "externals \<Rightarrow> dict \<Rightarrow> PrepReader io" where
  "create_reader_by_args ext args w =
     (case get_common_args ext args of
        Inl e \<Rightarrow> (Inl e, w)
      | Inr (url, nid, _) \<Rightarrow>
          (case create_reader ext url nid w of
             (reader, w1) \<Rightarrow>
               (Inr (PrepReader_set_on_send_request reader (print_request_callback ext)), w1)))"

definition create_writer :: "externals \<Rightarrow> pyval \<Rightarrow> pyval \<Rightarrow> pyval \<Rightarrow> pyval \<Rightarrow> PrepWriter io" where
  "create_writer ext url nid keystore_path password w =
     (let url' = get_url ext url
      in case IconService ext url' w of
           (icon_service, w1) \<Rightarrow>
             (case KeyWallet_load ext keystore_path password w1 of
                (Inl (KeyStoreException msg), w2) \<Rightarrow>
                  (Inl (SystemExit 1), w2\<lparr>terminal := emit (PrintLine msg) (terminal w2)\<rparr>)
              | (Inl e, w2) \<Rightarrow> (Inl e, w2)
              | (Inr owner_wallet, w2) \<Rightarrow> (Inr (PrepWriter_init icon_service nid owner_wallet), w2)))"

definition create_writer_by_args :: "externals \<Rightarrow> dict \<Rightarrow> PrepWriter io" where
  "create_writer_by_args ext args w =
     (case get_common_args ext args of
        Inl e \<Rightarrow> (Inl e, w)
      | Inr (url, nid, keystore_path) \<Rightarrow>
          (case getattr args ''password'' of
             Inl e \<Rightarrow> (Inl e, w)
           | Inr password \<Rightarrow>
               (let yes = (if hasattr args ''yes''
                           then (case getattr args ''yes'' of Inr y \<Rightarrow> y | Inl _ \<Rightarrow> PBool False)
                           else PBool False)
                in case (if password = PNone then
                           (case getpass ''> Password: '' (terminal w) of
                              (Inl e, t1) \<Rightarrow> (Inl e, w\<lparr>terminal := t1\<rparr>)
                            | (Inr l, t1) \<Rightarrow> (Inr (PStr l), w\<lparr>terminal := t1\<rparr>))
                         else (Inr password, w)) of
                     (Inl e, w1) \<Rightarrow> (Inl e, w1)
                   | (Inr password', w1) \<Rightarrow>
                       (case create_writer ext url nid keystore_path password' w1 of
                          (Inl e, w2) \<Rightarrow> (Inl e, w2)
                        | (Inr writer, w2) \<Rightarrow>
                            (Inr (PrepWriter_set_on_send_request writer
                                    (\<lambda>c. confirm_callback ext c yes)), w2)))))"

definition create_icon_service :: "externals \<Rightarrow> pyval \<Rightarrow> world \<Rightarrow> icon_service \<times> world" where
  "create_icon_service ext url w = (let url' = get_url ext url in IconService ext url' w)"

section \<open>Vocabulary of the properties\<close>

text \<open>
  The four write operations of \<open>PrepWriter\<close> behind one entry point, so that a property
  can be stated once for all of them, and the events an operation adds to the trace.
\<close>

datatype write_operation =
    RegisterPrep pyval
  | UnregisterPrep
  | SetPrep pyval
  | SetGovernanceVariables pyval

fun perform :: "externals \<Rightarrow> PrepWriter \<Rightarrow> write_operation \<Rightarrow> pyval io" where
  "perform ext pw (RegisterPrep params) = register_prep ext pw params"
| "perform ext pw UnregisterPrep = unregister_prep ext pw"
| "perform ext pw (SetPrep params) = set_prep ext pw params"
| "perform ext pw (SetGovernanceVariables params) = set_governance_variables ext pw params"

definition new_events :: "world \<Rightarrow> world \<Rightarrow> event list" where
  "new_events w w' = drop (length (trace w)) (trace w')"

fun is_signing :: "event \<Rightarrow> bool" where
  "is_signing (Signed _ _) = True"
| "is_signing _ = False"

fun is_send :: "event \<Rightarrow> bool" where
  "is_send (SendTransaction _ _) = True"
| "is_send _ = False"

text \<open>The envelope an event carries, if it carries one.\<close>

fun event_envelope :: "event \<Rightarrow> transaction option" where
  "event_envelope (TxBuilt t) = Some t"
| "event_envelope (HookCalled (TransactionDict t)) = Some t"
| "event_envelope (Signed t _) = Some t"
| "event_envelope (SendTransaction stx _) = Some (stx_transaction stx)"
| "event_envelope _ = None"

text \<open>
  The table of write operations of the specification (method, parameters, value) and the
  envelope it prescribes: sender the owner's address, recipient the governance contract
  address, protocol version 3, network id of the session, the default step limit.
\<close>

fun table_method :: "write_operation \<Rightarrow> string" where
  "table_method (RegisterPrep _) = ''registerPRep''"
| "table_method UnregisterPrep = ''unregisterPRep''"
| "table_method (SetPrep _) = ''setPRep''"
| "table_method (SetGovernanceVariables _) = ''setGovernanceVariables''"

fun table_params :: "write_operation \<Rightarrow> pyval" where
  "table_params (RegisterPrep p) = p"
| "table_params UnregisterPrep = PDict []"
| "table_params (SetPrep p) = p"
| "table_params (SetGovernanceVariables p) = p"

fun table_value :: "write_operation \<Rightarrow> int" where
  "table_value (RegisterPrep _) = 2000 * 10 ^ 18"
| "table_value _ = 0"

definition table_envelope :: "externals \<Rightarrow> PrepWriter \<Rightarrow> write_operation \<Rightarrow> transaction" where
  "table_envelope ext pw op =
     \<lparr>tx_from = get_address (pw_owner pw), tx_to = ZERO_ADDRESS ext,
      tx_step_limit = 268435456, tx_version = 3, tx_nid = pw_nid pw,
      tx_method = table_method op, tx_params = table_params op, tx_value = table_value op\<rparr>"

text \<open>
  Events that reach the network through the RPC client, and events that use the wallet or
  the keystore.
\<close>

fun is_network_call :: "event \<Rightarrow> bool" where
  "is_network_call (SendTransaction _ _) = True"
| "is_network_call (Call _ _) = True"
| "is_network_call (GetTransactionResult _ _) = True"
| "is_network_call (GetTransaction _ _) = True"
| "is_network_call _ = False"

fun is_wallet_use :: "event \<Rightarrow> bool" where
  "is_wallet_use (Signed _ _) = True"
| "is_wallet_use (WalletLoad _ _) = True"
| "is_wallet_use _ = False"

text \<open>
  Configuration resolution in the words of the specification: the built-in defaults,
  overlaid by the JSON configuration file, overlaid by the command line, where a command
  line value that is absent or \<open>None\<close> leaves the underlying value. The resolved triple is
  the URL after alias resolution, the network id and the keystore path; a key found
  nowhere is a \<open>KeyError\<close>.
\<close>

definition spec_resolve :: "dict \<Rightarrow> dict \<Rightarrow> dict \<Rightarrow> string \<Rightarrow> pyval option" where
  "spec_resolve defaults file cli k =
     (case map_of cli k of
        Some v \<Rightarrow> if v = PNone then (map_of defaults ++ map_of file) k else Some v
      | None \<Rightarrow> (map_of defaults ++ map_of file) k)"

definition spec_common_args ::
  "externals \<Rightarrow> dict \<Rightarrow> dict \<Rightarrow> dict \<Rightarrow> error + (pyval \<times> pyval \<times> pyval)" where
  "spec_common_args ext defaults file cli =
     (case spec_resolve defaults file cli ''url'' of
        None \<Rightarrow> Inl (KeyError ''url'')
      | Some u \<Rightarrow>
          (case spec_resolve defaults file cli ''nid'' of
             None \<Rightarrow> Inl (KeyError ''nid'')
           | Some n \<Rightarrow>
               (case spec_resolve defaults file cli ''keystore'' of
                  None \<Rightarrow> Inl (KeyError ''keystore'')
                | Some k \<Rightarrow> Inr (get_url ext u, n, k))))"

section \<open>A concrete session\<close>

text \<open>
  One wallet, one RPC client, one set of constants and configuration, used to run the
  operations on concrete inputs. The keystore opens with the password \<open>secret\<close> only.
\<close>

definition demo_wallet :: wallet where
  "demo_wallet = \<lparr>get_address = ''hx1234'', sign = (\<lambda>t. Inr ''signature'')\<rparr>"

definition demo_broken_wallet :: wallet where
  "demo_broken_wallet =
     \<lparr>get_address = ''hx1234'', sign = (\<lambda>t. Inl (Raised ''signing failed''))\<rparr>"

definition demo_service :: icon_service where
  "demo_service =
     \<lparr>send_transaction = (\<lambda>stx full. Inr (PDict [(''result'', PStr ''0xabc'')])),
      call_query = (\<lambda>c full. Inr (PDict [(''name'', PStr ''node'')])),
      get_transaction_result = (\<lambda>h full. Inr (PDict [(''status'', PInt 1)])),
      get_transaction = (\<lambda>h full. Inr (PDict [(''txHash'', h)]))\<rparr>"

definition demo_failing_service :: icon_service where
  "demo_failing_service =
     \<lparr>send_transaction = (\<lambda>stx full. Inl (Raised ''timeout'')),
      call_query = (\<lambda>c full. Inl (Raised ''timeout'')),
      get_transaction_result = (\<lambda>h full. Inl (Raised ''timeout'')),
      get_transaction = (\<lambda>h full. Inl (Raised ''timeout''))\<rparr>"

definition demo_ext :: externals where
  "demo_ext =
     \<lparr>ZERO_ADDRESS = ''cx0000000000000000000000000000000000000000'',
      EOA_ADDRESS = ''hx0000000000000000000000000000000000000000'',
      COLUMN = 80,
      get_default_config = [(''url'', PStr ''A''), (''nid'', PInt 1), (''keystore'', PNone)],
      get_url = (\<lambda>u. u),
      json_load_file =
        (\<lambda>p. if p = PStr ''conf.json'' then Inr [(''url'', PStr ''B'')]
             else Inl (Raised ''FileNotFoundError'')),
      sdk_KeyWallet_load =
        (\<lambda>path password. if password = PStr ''secret'' then Inr demo_wallet
             else Inl (KeyStoreException ''Fail to load keystore'')),
      sdk_IconService = (\<lambda>url. demo_service)\<rparr>"

definition demo_terminal :: "string list \<Rightarrow> terminal" where
  "demo_terminal ls = \<lparr>out = [], inp = ls\<rparr>"

definition demo_world :: "string list \<Rightarrow> world" where
  "demo_world ls = \<lparr>trace = [], terminal = demo_terminal ls\<rparr>"

definition demo_writer :: "hook option \<Rightarrow> PrepWriter" where
  "demo_writer slot =
     \<lparr>pw_icon_service = demo_service, pw_owner = demo_wallet, pw_nid = PInt 3,
      pw_on_send_request = slot\<rparr>"

definition demo_reader :: "hook option \<Rightarrow> PrepReader" where
  "demo_reader slot =
     \<lparr>pr_icon_service = demo_service, pr_nid = PInt 3,
      pr_from = ''hx0000000000000000000000000000000000000000'', pr_on_send_request = slot\<rparr>"

definition demo_register :: transaction where
  "demo_register =
     \<lparr>tx_from = ''hx1234'', tx_to = ''cx0000000000000000000000000000000000000000'',
      tx_step_limit = 268435456, tx_version = 3, tx_nid = PInt 3,
      tx_method = ''registerPRep'', tx_params = PDict [(''name'', PStr ''node'')],
      tx_value = 2000000000000000000000\<rparr>"

definition demo_update :: transaction where
  "demo_update =
     \<lparr>tx_from = ''hx1234'', tx_to = ''cx0000000000000000000000000000000000000000'',
      tx_step_limit = 268435456, tx_version = 3, tx_nid = PInt 3,
      tx_method = ''setPRep'', tx_params = PDict [(''name'', PStr ''node'')],
      tx_value = 0\<rparr>"

definition demo_query :: call where
  "demo_query =
     \<lparr>call_from = ''hx0000000000000000000000000000000000000000'',
      call_to = ''cx0000000000000000000000000000000000000000'',
      call_method = ''getPRep'', call_params = PDict [(''address'', PStr ''hx1234'')]\<rparr>"

definition demo_list_query :: call where
  "demo_list_query =
     \<lparr>call_from = ''hx0000000000000000000000000000000000000000'',
      call_to = ''cx0000000000000000000000000000000000000000'',
      call_method = ''getPReps'', call_params = PNone\<rparr>"

definition demo_args :: dict where
  "demo_args =
     [(''config'', PStr ''conf.json''), (''url'', PNone), (''nid'', PInt 2),
      (''keystore'', PNone), (''password'', PStr ''secret''), (''yes'', PBool True)]"

section \<open>Unfolding rules for concrete runs\<close>

lemmas demo_defs =
  demo_wallet_def demo_service_def demo_ext_def demo_terminal_def demo_world_def
  demo_writer_def demo_reader_def demo_register_def

lemmas demo_defs2 = demo_update_def demo_query_def demo_list_query_def demo_args_def

lemmas write_defs =
  register_prep_def unregister_prep_def set_prep_def set_governance_variables_def
  PrepWriter_call_def PrepWriter_create_tx_handler_def TxHandler_call_def TxHandler_call_tx_def
  TxHandler_call_on_send_request_def run_hook_def log_def SignedTransaction_def
  IconService_send_transaction_def default_step_limit_def

lemmas terminal_defs =
  confirm_callback_def print_request_callback_def print_request_def emit_def input_def
  getpass_def

section \<open>The write path\<close>

lemma call_tx_hook:
  assumes "th_on_send_request th = Some h"
    and "h (TransactionDict t) (terminal w) = (r, t')"
    and "t = \<lparr>tx_from = get_address owner, tx_to = to, tx_step_limit = limit,
                tx_version = 3, tx_nid = th_nid th, tx_method = method,
                tx_params = params, tx_value = val\<rparr>"
  shows "TxHandler_call_tx th owner to method params limit val w =
     (case r of
        Inl e \<Rightarrow> (Inl e, w\<lparr>trace := trace w @ [TxBuilt t, HookCalled (TransactionDict t)], terminal := t'\<rparr>)
      | Inr v \<Rightarrow>
          if truthy v then
            (case sign owner t of
               Inl e \<Rightarrow>
                 (Inl e,
                  w\<lparr>trace := trace w @ [TxBuilt t, HookCalled (TransactionDict t),
                       Signed t (get_address owner)], terminal := t'\<rparr>)
             | Inr sg \<Rightarrow>
                 (send_transaction (th_icon_service th) \<lparr>stx_transaction = t, stx_signature = sg\<rparr> True,
                  w\<lparr>trace := trace w @ [TxBuilt t, HookCalled (TransactionDict t),
                       Signed t (get_address owner),
                       SendTransaction \<lparr>stx_transaction = t, stx_signature = sg\<rparr> True],
                    terminal := t'\<rparr>))
          else (Inr PNone, w\<lparr>trace := trace w @ [TxBuilt t, HookCalled (TransactionDict t)], terminal := t'\<rparr>))"
  using assms
  by (simp add: TxHandler_call_tx_def TxHandler_call_on_send_request_def run_hook_def log_def
      SignedTransaction_def IconService_send_transaction_def Let_def split: sum.splits)

lemma call_tx_no_hook:
  assumes "th_on_send_request th = None"
  shows "TxHandler_call_tx th owner to method params limit val w =
     (Inr PNone, w\<lparr>trace := trace w @ [TxBuilt \<lparr>tx_from = get_address owner, tx_to = to, tx_step_limit = limit,
                tx_version = 3, tx_nid = th_nid th, tx_method = method,
                tx_params = params, tx_value = val\<rparr>]\<rparr>)"
  using assms
  by (simp add: TxHandler_call_tx_def TxHandler_call_on_send_request_def log_def Let_def)

lemma perform_call_tx:
  "perform ext pw op =
     TxHandler_call_tx (PrepWriter_create_tx_handler pw) (pw_owner pw) (ZERO_ADDRESS ext)
       (table_method op) (table_params op) 268435456 (table_value op)"
  by (cases op)
     (simp_all add: register_prep_def unregister_prep_def set_prep_def
        set_governance_variables_def PrepWriter_call_def TxHandler_call_def
        default_step_limit_def Let_def)

lemma perform_hook:
  assumes "pw_on_send_request pw = Some h"
    and "h (TransactionDict (table_envelope ext pw op)) (terminal w) = (r, t')"
  shows "perform ext pw op w =
     (case r of
        Inl e \<Rightarrow> (Inl e, w\<lparr>trace := trace w @ [TxBuilt (table_envelope ext pw op),
                     HookCalled (TransactionDict (table_envelope ext pw op))], terminal := t'\<rparr>)
      | Inr v \<Rightarrow>
          if truthy v then
            (case sign (pw_owner pw) (table_envelope ext pw op) of
               Inl e \<Rightarrow>
                 (Inl e,
                  w\<lparr>trace := trace w @ [TxBuilt (table_envelope ext pw op),
                       HookCalled (TransactionDict (table_envelope ext pw op)),
                       Signed (table_envelope ext pw op) (get_address (pw_owner pw))],
                    terminal := t'\<rparr>)
             | Inr sg \<Rightarrow>
                 (send_transaction (pw_icon_service pw)
                    \<lparr>stx_transaction = table_envelope ext pw op, stx_signature = sg\<rparr> True,
                  w\<lparr>trace := trace w @ [TxBuilt (table_envelope ext pw op),
                       HookCalled (TransactionDict (table_envelope ext pw op)),
                       Signed (table_envelope ext pw op) (get_address (pw_owner pw)),
                       SendTransaction \<lparr>stx_transaction = table_envelope ext pw op,
                         stx_signature = sg\<rparr> True],
                    terminal := t'\<rparr>))
          else (Inr PNone, w\<lparr>trace := trace w @ [TxBuilt (table_envelope ext pw op),
                     HookCalled (TransactionDict (table_envelope ext pw op))], terminal := t'\<rparr>))"
proof -
  have slot: "th_on_send_request (PrepWriter_create_tx_handler pw) = Some h"
    using assms(1) by (simp add: PrepWriter_create_tx_handler_def)
  have env: "table_envelope ext pw op =
      \<lparr>tx_from = get_address (pw_owner pw), tx_to = ZERO_ADDRESS ext, tx_step_limit = 268435456,
       tx_version = 3, tx_nid = th_nid (PrepWriter_create_tx_handler pw),
       tx_method = table_method op, tx_params = table_params op, tx_value = table_value op\<rparr>"
    by (simp add: table_envelope_def PrepWriter_create_tx_handler_def)
  have svc: "th_icon_service (PrepWriter_create_tx_handler pw) = pw_icon_service pw"
    by (simp add: PrepWriter_create_tx_handler_def)
  show ?thesis
    unfolding perform_call_tx
    by (rule call_tx_hook [OF slot assms(2) env, unfolded svc])
qed

lemma perform_no_hook:
  assumes "pw_on_send_request pw = None"
  shows "perform ext pw op w =
     (Inr PNone, w\<lparr>trace := trace w @ [TxBuilt (table_envelope ext pw op)]\<rparr>)"
proof -
  have slot: "th_on_send_request (PrepWriter_create_tx_handler pw) = None"
    using assms by (simp add: PrepWriter_create_tx_handler_def)
  show ?thesis
    unfolding perform_call_tx
    using call_tx_no_hook [OF slot]
    by (simp add: table_envelope_def PrepWriter_create_tx_handler_def)
qed

lemma new_events_append: "trace w' = trace w @ evs \<Longrightarrow> new_events w w' = evs"
  by (simp add: new_events_def)

lemma perform_trace:
  "\<exists>evs. trace (snd (perform ext pw op w)) = trace w @ TxBuilt (table_envelope ext pw op) # evs
     \<and> list_all (\<lambda>e. event_envelope e = None \<or> event_envelope e = Some (table_envelope ext pw op)) evs"
proof (cases "pw_on_send_request pw")
  case None
  then show ?thesis by (simp add: perform_no_hook)
next
  case (Some h)
  obtain r t' where h: "h (TransactionDict (table_envelope ext pw op)) (terminal w) = (r, t')"
    by (cases "h (TransactionDict (table_envelope ext pw op)) (terminal w)") auto
  show ?thesis
    by (cases r; cases "sign (pw_owner pw) (table_envelope ext pw op)")
       (simp_all add: perform_hook [OF Some h])
qed

text \<open>
  Claim C1, as the code has it. For every write operation, when the registered hook
  returns a true value for the built envelope, the envelope is handed to the wallet for
  signing exactly once. If the signing returns, \<open>send_transaction\<close> is called exactly once,
  with the signed envelope, and the operation returns what the RPC client answered,
  unchanged. If the signing raises, the operation raises the same error and
  \<open>send_transaction\<close> is not called.
\<close>

theorem approved_write_signs_and_sends_once:
  assumes "pw_on_send_request pw = Some h"
    and "h (TransactionDict (table_envelope ext pw op)) (terminal w) = (Inr v, t')"
    and "truthy v"
  shows "(sign (pw_owner pw) (table_envelope ext pw op) = Inr sg \<longrightarrow>
            perform ext pw op w =
              (send_transaction (pw_icon_service pw)
                 \<lparr>stx_transaction = table_envelope ext pw op, stx_signature = sg\<rparr> True,
               w\<lparr>trace := trace w @
                    [TxBuilt (table_envelope ext pw op),
                     HookCalled (TransactionDict (table_envelope ext pw op)),
                     Signed (table_envelope ext pw op) (get_address (pw_owner pw)),
                     SendTransaction
                       \<lparr>stx_transaction = table_envelope ext pw op, stx_signature = sg\<rparr> True],
                 terminal := t'\<rparr>)
            \<and> length (filter is_signing (new_events w (snd (perform ext pw op w)))) = 1
            \<and> length (filter is_send (new_events w (snd (perform ext pw op w)))) = 1)
         \<and> (sign (pw_owner pw) (table_envelope ext pw op) = Inl e \<longrightarrow>
            perform ext pw op w =
              (Inl e,
               w\<lparr>trace := trace w @
                    [TxBuilt (table_envelope ext pw op),
                     HookCalled (TransactionDict (table_envelope ext pw op)),
                     Signed (table_envelope ext pw op) (get_address (pw_owner pw))],
                 terminal := t'\<rparr>)
            \<and> length (filter is_signing (new_events w (snd (perform ext pw op w)))) = 1
            \<and> filter is_send (new_events w (snd (perform ext pw op w))) = [])"
proof (intro conjI impI)
  assume sg: "sign (pw_owner pw) (table_envelope ext pw op) = Inr sg"
  have run: "perform ext pw op w =
              (send_transaction (pw_icon_service pw)
                 \<lparr>stx_transaction = table_envelope ext pw op, stx_signature = sg\<rparr> True,
               w\<lparr>trace := trace w @
                    [TxBuilt (table_envelope ext pw op),
                     HookCalled (TransactionDict (table_envelope ext pw op)),
                     Signed (table_envelope ext pw op) (get_address (pw_owner pw)),
                     SendTransaction
                       \<lparr>stx_transaction = table_envelope ext pw op, stx_signature = sg\<rparr> True],
                 terminal := t'\<rparr>)"
    using perform_hook [OF assms(1,2)] assms(3) sg by simp
  show "perform ext pw op w =
              (send_transaction (pw_icon_service pw)
                 \<lparr>stx_transaction = table_envelope ext pw op, stx_signature = sg\<rparr> True,
               w\<lparr>trace := trace w @
                    [TxBuilt (table_envelope ext pw op),
                     HookCalled (TransactionDict (table_envelope ext pw op)),
                     Signed (table_envelope ext pw op) (get_address (pw_owner pw)),
                     SendTransaction
                       \<lparr>stx_transaction = table_envelope ext pw op, stx_signature = sg\<rparr> True],
                 terminal := t'\<rparr>)"
    by (rule run)
  show "length (filter is_signing (new_events w (snd (perform ext pw op w)))) = 1"
    by (simp add: run new_events_def)
  show "length (filter is_send (new_events w (snd (perform ext pw op w)))) = 1"
    by (simp add: run new_events_def)
next
  assume err: "sign (pw_owner pw) (table_envelope ext pw op) = Inl e"
  have run: "perform ext pw op w =
              (Inl e,
               w\<lparr>trace := trace w @
                    [TxBuilt (table_envelope ext pw op),
                     HookCalled (TransactionDict (table_envelope ext pw op)),
                     Signed (table_envelope ext pw op) (get_address (pw_owner pw))],
                 terminal := t'\<rparr>)"
    using perform_hook [OF assms(1,2)] assms(3) err by simp
  show "perform ext pw op w =
              (Inl e,
               w\<lparr>trace := trace w @
                    [TxBuilt (table_envelope ext pw op),
                     HookCalled (TransactionDict (table_envelope ext pw op)),
                     Signed (table_envelope ext pw op) (get_address (pw_owner pw))],
                 terminal := t'\<rparr>)"
    by (rule run)
  show "length (filter is_signing (new_events w (snd (perform ext pw op w)))) = 1"
    by (simp add: run new_events_def)
  show "filter is_send (new_events w (snd (perform ext pw op w))) = []"
    by (simp add: run new_events_def)
qed

text \<open>
  Claim C1 on the concrete session: registration with the confirmation callback in
  auto-yes mode, with a wallet that signs and with a wallet whose signing raises.
\<close>

theorem approved_write_signs_and_sends_once_witness:
  "truthy (PBool True)
   \<and> table_envelope demo_ext (demo_writer None) (RegisterPrep (PDict [(''name'', PStr ''node'')])) =
       demo_register
   \<and> perform demo_ext (demo_writer (Some (\<lambda>c. confirm_callback demo_ext c (PBool True))))
       (RegisterPrep (PDict [(''name'', PStr ''node'')])) (demo_world []) =
     (Inr (PDict [(''result'', PStr ''0xabc'')]),
      \<lparr>trace = [TxBuilt demo_register, HookCalled (TransactionDict demo_register),
                Signed demo_register ''hx1234'',
                SendTransaction \<lparr>stx_transaction = demo_register,
                                 stx_signature = ''signature''\<rparr> True],
       terminal = \<lparr>out = [PrintTitle ''Request'' 80, PrintDict (TransactionDict demo_register),
                           PrintLine ''''],
                    inp = []\<rparr>\<rparr>)
   \<and> perform demo_ext
       ((demo_writer (Some (\<lambda>c. confirm_callback demo_ext c (PBool True))))
          \<lparr>pw_owner := demo_broken_wallet\<rparr>)
       (RegisterPrep (PDict [(''name'', PStr ''node'')])) (demo_world []) =
     (Inl (Raised ''signing failed''),
      \<lparr>trace = [TxBuilt demo_register, HookCalled (TransactionDict demo_register),
                Signed demo_register ''hx1234''],
       terminal = \<lparr>out = [PrintTitle ''Request'' 80, PrintDict (TransactionDict demo_register),
                           PrintLine ''''],
                    inp = []\<rparr>\<rparr>)"
proof -
  let ?h = "\<lambda>c. confirm_callback demo_ext c (PBool True)"
  let ?pw = "demo_writer (Some ?h)"
  let ?bad = "?pw\<lparr>pw_owner := demo_broken_wallet\<rparr>"
  let ?op = "RegisterPrep (PDict [(''name'', PStr ''node'')])"
  let ?t' = "\<lparr>out = [PrintTitle ''Request'' 80, PrintDict (TransactionDict demo_register),
                      PrintLine ''''], inp = []\<rparr>"
  have env: "table_envelope demo_ext ?pw ?op = demo_register"
    "table_envelope demo_ext ?bad ?op = demo_register"
    "table_envelope demo_ext (demo_writer None) ?op = demo_register"
    by (simp_all add: table_envelope_def demo_defs demo_broken_wallet_def)
  have slot: "pw_on_send_request ?pw = Some ?h" "pw_on_send_request ?bad = Some ?h"
    by (simp_all add: demo_writer_def)
  have hook: "?h (TransactionDict demo_register) (terminal (demo_world [])) = (Inr (PBool True), ?t')"
    by (simp add: terminal_defs demo_defs Let_def)
  have yes: "truthy (PBool True)"
    by simp
  have signed: "sign (pw_owner ?pw) demo_register = Inr ''signature''"
    by (simp add: demo_defs)
  have broken: "sign (pw_owner ?bad) demo_register = Inl (Raised ''signing failed'')"
    by (simp add: demo_defs demo_broken_wallet_def)
  note good_run = approved_write_signs_and_sends_once
    [OF slot(1) hook [folded env(1)] yes, THEN conjunct1, unfolded env(1), rule_format, OF signed,
     THEN conjunct1]
  note bad_run = approved_write_signs_and_sends_once
    [OF slot(2) hook [folded env(2)] yes, THEN conjunct2, unfolded env(2), rule_format, OF broken,
     THEN conjunct1]
  show ?thesis
    unfolding good_run bad_run env(3)
    by (simp add: demo_world_def demo_terminal_def demo_writer_def demo_service_def
        demo_wallet_def demo_broken_wallet_def)
qed

text \<open>
  Claim C1 as the specification words it does not hold: with a wallet whose signing
  raises, the hook returns \<open>True\<close> for the built envelope and yet nothing is sent and the
  operation raises.
\<close>

theorem approved_write_without_send_counterexample:
  "pw_on_send_request
       ((demo_writer (Some (\<lambda>c. confirm_callback demo_ext c (PBool True))))
          \<lparr>pw_owner := demo_broken_wallet\<rparr>)
     = Some (\<lambda>c. confirm_callback demo_ext c (PBool True))
   \<and> fst (confirm_callback demo_ext (TransactionDict demo_register) (PBool True)
            (terminal (demo_world []))) = Inr (PBool True)
   \<and> new_events (demo_world [])
       (snd (perform demo_ext
               ((demo_writer (Some (\<lambda>c. confirm_callback demo_ext c (PBool True))))
                  \<lparr>pw_owner := demo_broken_wallet\<rparr>)
               (RegisterPrep (PDict [(''name'', PStr ''node'')])) (demo_world []))) =
     [TxBuilt demo_register, HookCalled (TransactionDict demo_register),
      Signed demo_register ''hx1234'']
   \<and> fst (perform demo_ext
            ((demo_writer (Some (\<lambda>c. confirm_callback demo_ext c (PBool True))))
               \<lparr>pw_owner := demo_broken_wallet\<rparr>)
            (RegisterPrep (PDict [(''name'', PStr ''node'')])) (demo_world [])) =
     Inl (Raised ''signing failed'')"
  by (simp add: new_events_def write_defs terminal_defs demo_defs demo_broken_wallet_def Let_def)

text \<open>
  Claim C2. For every write operation, when the registered hook returns a false value for
  the built envelope, nothing is signed, \<open>send_transaction\<close> is not called, and the operation
  returns \<open>None\<close> without raising: all it did was to build the envelope and call the hook.
\<close>

theorem declined_write_is_not_sent:
  assumes "pw_on_send_request pw = Some h"
    and "h (TransactionDict (table_envelope ext pw op)) (terminal w) = (Inr v, t')"
    and "\<not> truthy v"
  shows "perform ext pw op w =
           (Inr PNone,
            w\<lparr>trace := trace w @
                 [TxBuilt (table_envelope ext pw op),
                  HookCalled (TransactionDict (table_envelope ext pw op))],
              terminal := t'\<rparr>)
         \<and> filter is_signing (new_events w (snd (perform ext pw op w))) = []
         \<and> filter is_send (new_events w (snd (perform ext pw op w))) = []
         \<and> \<not> list_ex is_network_call (new_events w (snd (perform ext pw op w)))"
proof -
  have run: "perform ext pw op w =
           (Inr PNone,
            w\<lparr>trace := trace w @
                 [TxBuilt (table_envelope ext pw op),
                  HookCalled (TransactionDict (table_envelope ext pw op))],
              terminal := t'\<rparr>)"
    using perform_hook [OF assms(1,2)] assms(3) by simp
  show ?thesis
    by (simp add: run new_events_def)
qed

text \<open>
  Claim C2 on the concrete session: an update that the operator declines by typing \<open>n\<close>.
\<close>

theorem declined_write_is_not_sent_witness:
  "\<not> truthy (PBool False)
   \<and> table_envelope demo_ext (demo_writer None) (SetPrep (PDict [(''name'', PStr ''node'')])) =
       demo_update
   \<and> perform demo_ext (demo_writer (Some (\<lambda>c. confirm_callback demo_ext c (PBool False))))
       (SetPrep (PDict [(''name'', PStr ''node'')])) (demo_world [''n'']) =
     (Inr PNone,
      \<lparr>trace = [TxBuilt demo_update, HookCalled (TransactionDict demo_update)],
       terminal = \<lparr>out = [PrintTitle ''Request'' 80, PrintDict (TransactionDict demo_update),
                           PrintLine '''', Prompt ''> Continue? [Y/n]''],
                    inp = []\<rparr>\<rparr>)"
proof -
  let ?h = "\<lambda>c. confirm_callback demo_ext c (PBool False)"
  let ?pw = "demo_writer (Some ?h)"
  let ?op = "SetPrep (PDict [(''name'', PStr ''node'')])"
  let ?t' = "\<lparr>out = [PrintTitle ''Request'' 80, PrintDict (TransactionDict demo_update),
                      PrintLine '''', Prompt ''> Continue? [Y/n]''], inp = []\<rparr>"
  have env: "table_envelope demo_ext ?pw ?op = demo_update"
    "table_envelope demo_ext (demo_writer None) ?op = demo_update"
    by (simp_all add: table_envelope_def demo_defs demo_defs2)
  have slot: "pw_on_send_request ?pw = Some ?h"
    by (simp add: demo_writer_def)
  have hook: "?h (TransactionDict demo_update) (terminal (demo_world [''n''])) =
      (Inr (PBool False), ?t')"
    by (simp add: terminal_defs demo_defs Let_def)
  have no: "\<not> truthy (PBool False)"
    by simp
  note run = declined_write_is_not_sent
    [OF slot hook [folded env(1)] no, THEN conjunct1, unfolded env(1)]
  show ?thesis
    unfolding run env(2)
    by (simp add: demo_world_def demo_terminal_def)
qed

text \<open>
  Claim C3. On a writer with no hook registered, the invocation of the hook answers
  \<open>False\<close> and changes nothing; every write operation then returns \<open>None\<close>, and the only
  thing it did was to build the envelope: no hook call, no signing, no send.
\<close>

theorem write_without_hook_is_skipped:
  assumes "pw_on_send_request pw = None"
  shows "TxHandler_call_on_send_request (PrepWriter_create_tx_handler pw) c w = (Inr (PBool False), w)
         \<and> fst (perform ext pw op w) = Inr PNone
         \<and> terminal (snd (perform ext pw op w)) = terminal w
         \<and> (\<exists>t. new_events w (snd (perform ext pw op w)) = [TxBuilt t])"
  using assms
  by (simp add: perform_no_hook new_events_def TxHandler_call_on_send_request_def
      PrepWriter_create_tx_handler_def)

text \<open>
  Claim C3 on the concrete session: unregistration on a writer whose slot is empty.
\<close>

theorem write_without_hook_is_skipped_witness:
  "pw_on_send_request (demo_writer None) = None
   \<and> fst (perform demo_ext (demo_writer None) UnregisterPrep (demo_world [])) = Inr PNone
   \<and> terminal (snd (perform demo_ext (demo_writer None) UnregisterPrep (demo_world []))) =
       demo_terminal []
   \<and> trace (snd (perform demo_ext (demo_writer None) UnregisterPrep (demo_world []))) =
       [TxBuilt \<lparr>tx_from = ''hx1234'', tx_to = ''cx0000000000000000000000000000000000000000'',
                 tx_step_limit = 268435456, tx_version = 3, tx_nid = PInt 3,
                 tx_method = ''unregisterPRep'', tx_params = PDict [], tx_value = 0\<rparr>]"
proof -
  have slot: "pw_on_send_request (demo_writer None) = None"
    by (simp add: demo_writer_def)
  have run: "trace (snd (perform demo_ext (demo_writer None) UnregisterPrep (demo_world []))) =
       [TxBuilt \<lparr>tx_from = ''hx1234'', tx_to = ''cx0000000000000000000000000000000000000000'',
                 tx_step_limit = 268435456, tx_version = 3, tx_nid = PInt 3,
                 tx_method = ''unregisterPRep'', tx_params = PDict [], tx_value = 0\<rparr>]"
    by (simp add: write_defs demo_defs Let_def)
  show ?thesis
    using write_without_hook_is_skipped [OF slot, where ext = demo_ext and op = UnregisterPrep
        and w = "demo_world []"] run
    by (simp add: demo_defs)
qed

text \<open>
  Claim C4. For each of the four write operations, any parameters and any hook, the
  envelope built has recipient \<open>ZERO_ADDRESS\<close> (the governance contract address), the
  network id of the session, the owner's address as sender and protocol version 3; and the
  envelope shown to the hook, signed and sent is that envelope.
\<close>

theorem write_envelope_routing:
  "\<exists>t evs. new_events w (snd (perform ext pw op w)) = TxBuilt t # evs
      \<and> tx_to t = ZERO_ADDRESS ext
      \<and> tx_nid t = pw_nid pw
      \<and> tx_from t = get_address (pw_owner pw)
      \<and> tx_version t = 3
      \<and> list_all (\<lambda>e. event_envelope e = None \<or> event_envelope e = Some t) evs"
proof -
  obtain evs where tr: "trace (snd (perform ext pw op w)) = trace w @ TxBuilt (table_envelope ext pw op) # evs"
    and same: "list_all (\<lambda>e. event_envelope e = None \<or> event_envelope e = Some (table_envelope ext pw op)) evs"
    using perform_trace by blast
  have "new_events w (snd (perform ext pw op w)) = TxBuilt (table_envelope ext pw op) # evs"
    using tr by (rule new_events_append)
  then show ?thesis
    using same by (auto simp: table_envelope_def)
qed

text \<open>
  Claim C5. \<open>register_prep\<close> builds its envelope with value \<open>2000 * 10 ^ 18\<close> whatever the
  parameters; the three other write operations build it with value \<open>0\<close>; all four use the
  step limit \<open>0x10000000 = 268435456\<close>.
\<close>

theorem write_envelope_value:
  "\<exists>t evs. new_events w (snd (perform ext pw op w)) = TxBuilt t # evs
      \<and> tx_value t = (case op of RegisterPrep params \<Rightarrow> 2000 * 10 ^ 18 | _ \<Rightarrow> 0)
      \<and> tx_step_limit t = 268435456"
proof -
  obtain evs where tr: "trace (snd (perform ext pw op w)) = trace w @ TxBuilt (table_envelope ext pw op) # evs"
    using perform_trace by blast
  have "new_events w (snd (perform ext pw op w)) = TxBuilt (table_envelope ext pw op) # evs"
    using tr by (rule new_events_append)
  then show ?thesis
    by (cases op) (simp_all add: table_envelope_def)
qed

section \<open>Configuration resolution\<close>

lemma map_of_setitem: "map_of (setitem d k v) = (map_of d)(k \<mapsto> v)"
  by (induction d k v rule: setitem.induct) auto

lemma update_conf_map:
  "set ks \<subseteq> fst ` set tmp \<Longrightarrow>
   \<exists>conf'. update_conf ks tmp conf = Inr conf' \<and> map_of conf' = map_of conf ++ (map_of tmp |` set ks)"
proof (induction ks arbitrary: conf)
  case Nil
  then show ?case by simp
next
  case (Cons k ks)
  then obtain v where v: "map_of tmp k = Some v"
    by (cases "map_of tmp k") (auto simp: map_of_eq_None_iff)
  from Cons obtain conf' where c: "update_conf ks tmp (setitem conf k v) = Inr conf'"
    and m: "map_of conf' = map_of (setitem conf k v) ++ (map_of tmp |` set ks)"
    by fastforce
  have "map_of conf' = map_of conf ++ (map_of tmp |` set (k # ks))"
    unfolding m map_of_setitem
    by (rule ext) (auto simp: map_add_def restrict_map_def v split: option.splits)
  then show ?case
    using c v by (simp add: getitem_def)
qed

lemma update_conf_all:
  "\<exists>conf'. update_conf (map fst tmp) tmp conf = Inr conf' \<and> map_of conf' = map_of conf ++ map_of tmp"
proof -
  have "set (map fst tmp) \<subseteq> fst ` set tmp" by simp
  from update_conf_map [OF this, of conf]
  obtain conf' where c: "update_conf (map fst tmp) tmp conf = Inr conf'"
    and m: "map_of conf' = map_of conf ++ (map_of tmp |` set (map fst tmp))"
    by blast
  have "map_of tmp |` set (map fst tmp) = map_of tmp"
    by (rule ext) (auto simp: restrict_map_def map_of_eq_None_iff [symmetric] simp del: map_of_eq_None_iff)
  with c m show ?thesis by simp
qed

lemma replace_attribute_resolve:
  assumes "map_of conf = map_of defaults ++ map_of file"
  shows "replace_attribute attr args conf =
     (case spec_resolve defaults file args attr of None \<Rightarrow> Inl (KeyError attr) | Some v \<Rightarrow> Inr v)"
  using assms
  by (auto simp: replace_attribute_def spec_resolve_def hasattr_def getattr_def getitem_def
      split: option.splits)

lemma common_args_of_conf:
  assumes "map_of conf = map_of defaults ++ map_of file"
  shows "(case replace_attribute ''url'' args conf of
             Inl e \<Rightarrow> Inl e
           | Inr u \<Rightarrow>
               (let url = get_url ext u
                in case replace_attribute ''nid'' args conf of
                     Inl e \<Rightarrow> Inl e
                   | Inr nid \<Rightarrow>
                       (case replace_attribute ''keystore'' args conf of
                          Inl e \<Rightarrow> Inl e
                        | Inr keystore_path \<Rightarrow> Inr (url, nid, keystore_path))))
         = spec_common_args ext defaults file args"
  unfolding replace_attribute_resolve [OF assms] spec_common_args_def
  by (simp add: Let_def split: option.splits)

lemma get_common_args_with_file:
  assumes "map_of args ''config'' = Some path" and "path \<noteq> PNone"
    and "json_load_file ext path = Inr file"
  shows "get_common_args ext args = spec_common_args ext (get_default_config ext) file args"
proof -
  obtain conf where c: "update_conf (map fst file) file (get_default_config ext) = Inr conf"
    and m: "map_of conf = map_of (get_default_config ext) ++ map_of file"
    using update_conf_all by blast
  show ?thesis
    unfolding get_common_args_def
    using assms c by (simp add: hasattr_def getattr_def common_args_of_conf [OF m])
qed

lemma get_common_args_without_file:
  assumes "map_of args ''config'' = None \<or> map_of args ''config'' = Some PNone"
  shows "get_common_args ext args = spec_common_args ext (get_default_config ext) [] args"
proof -
  have m: "map_of (get_default_config ext) = map_of (get_default_config ext) ++ map_of []"
    by simp
  show ?thesis
    unfolding get_common_args_def
    using assms by (auto simp: hasattr_def getattr_def common_args_of_conf [OF m])
qed

text \<open>
  Claim C6. \<open>get_common_args\<close> resolves each of \<open>url\<close>, \<open>nid\<close> and \<open>keystore\<close> by
  overlaying the defaults with the configuration file (when the namespace names one) and
  then with the command line, where a command line value that is present and not \<open>None\<close>
  wins and one that is \<open>None\<close> or absent falls through. On the example of the
  specification (defaults \<open>{url: A, nid: 1}\<close>, file \<open>{url: B}\<close>, command line \<open>nid = 2\<close>)
  the overlaid configuration is \<open>{url: B, nid: 1}\<close>, \<open>url\<close> resolves to \<open>B\<close> and \<open>nid\<close>
  to \<open>2\<close>.
\<close>

theorem config_resolution_precedence:
  "(map_of args ''config'' = Some path \<longrightarrow> path \<noteq> PNone \<longrightarrow> json_load_file ext path = Inr file \<longrightarrow>
      get_common_args ext args = spec_common_args ext (get_default_config ext) file args)
   \<and> (map_of args ''config'' = None \<or> map_of args ''config'' = Some PNone \<longrightarrow>
      get_common_args ext args = spec_common_args ext (get_default_config ext) [] args)
   \<and> update_conf [''url''] [(''url'', PStr ''B'')] [(''url'', PStr ''A''), (''nid'', PInt 1)]
        = Inr [(''url'', PStr ''B''), (''nid'', PInt 1)]
   \<and> replace_attribute ''url'' [(''nid'', PInt 2)] [(''url'', PStr ''B''), (''nid'', PInt 1)]
        = Inr (PStr ''B'')
   \<and> replace_attribute ''nid'' [(''nid'', PInt 2)] [(''url'', PStr ''B''), (''nid'', PInt 1)]
        = Inr (PInt 2)"
proof (intro conjI impI)
  show "update_conf [''url''] [(''url'', PStr ''B'')] [(''url'', PStr ''A''), (''nid'', PInt 1)]
        = Inr [(''url'', PStr ''B''), (''nid'', PInt 1)]"
    by (simp add: getitem_def)
  show "replace_attribute ''url'' [(''nid'', PInt 2)] [(''url'', PStr ''B''), (''nid'', PInt 1)]
        = Inr (PStr ''B'')"
    by (simp add: replace_attribute_def hasattr_def getitem_def)
  show "replace_attribute ''nid'' [(''nid'', PInt 2)] [(''url'', PStr ''B''), (''nid'', PInt 1)]
        = Inr (PInt 2)"
    by (simp add: replace_attribute_def hasattr_def getattr_def)
qed (simp_all add: get_common_args_with_file get_common_args_without_file)

text \<open>
  Claim C6 on the concrete session, whose defaults also carry a \<open>keystore\<close> entry: with
  the file, and without it.
\<close>

theorem config_resolution_precedence_witness:
  "get_common_args demo_ext demo_args = Inr (PStr ''B'', PInt 2, PNone)
   \<and> get_common_args demo_ext [(''nid'', PInt 2)] = Inr (PStr ''A'', PInt 2, PNone)"
proof -
  have with_file: "get_common_args demo_ext demo_args =
      spec_common_args demo_ext (get_default_config demo_ext) [(''url'', PStr ''B'')] demo_args"
    using config_resolution_precedence
      [of demo_args "PStr ''conf.json''" demo_ext "[(''url'', PStr ''B'')]"]
    by (simp add: demo_ext_def demo_args_def)
  have without_file: "get_common_args demo_ext [(''nid'', PInt 2)] =
      spec_common_args demo_ext (get_default_config demo_ext) [] [(''nid'', PInt 2)]"
    using config_resolution_precedence [of "[(''nid'', PInt 2)]" _ demo_ext]
    by simp
  show ?thesis
    unfolding with_file without_file
    by (simp add: spec_common_args_def spec_resolve_def demo_ext_def demo_args_def)
qed

section \<open>The session factory and the read path\<close>

lemma create_writer_keystore_error:
  assumes "sdk_KeyWallet_load ext keystore_path password = Inl (KeyStoreException msg)"
  shows "create_writer ext url nid keystore_path password w =
     (Inl (SystemExit 1),
      w\<lparr>trace := trace w @ [ServiceOpened (get_url ext url), WalletLoad keystore_path password],
        terminal := emit (PrintLine msg) (terminal w)\<rparr>)"
  using assms
  by (simp add: create_writer_def IconService_def KeyWallet_load_def log_def Let_def)

lemma create_writer_other_error:
  assumes "sdk_KeyWallet_load ext keystore_path password = Inl e"
    and "\<forall>msg. e \<noteq> KeyStoreException msg"
  shows "create_writer ext url nid keystore_path password w =
     (Inl e,
      w\<lparr>trace := trace w @ [ServiceOpened (get_url ext url), WalletLoad keystore_path password]\<rparr>)"
  using assms
  by (cases e) (simp_all add: create_writer_def IconService_def KeyWallet_load_def log_def Let_def)

lemma create_writer_loaded:
  assumes "sdk_KeyWallet_load ext keystore_path password = Inr owner"
  shows "create_writer ext url nid keystore_path password w =
     (Inr (PrepWriter_init (sdk_IconService ext (get_url ext url)) nid owner),
      w\<lparr>trace := trace w @ [ServiceOpened (get_url ext url), WalletLoad keystore_path password]\<rparr>)"
  using assms
  by (simp add: create_writer_def IconService_def KeyWallet_load_def log_def Let_def)

lemma reader_call_hook:
  assumes "pr_on_send_request pr = Some h"
    and "h (CallDict c) (terminal w) = (r, t')"
    and "c = \<lparr>call_from = pr_from pr, call_to = ZERO_ADDRESS ext,
               call_method = method, call_params = params\<rparr>"
  shows "PrepReader_call ext pr method params w =
     (case r of
        Inl e \<Rightarrow> (Inl e, w\<lparr>trace := trace w @ [CallBuilt c, HookCalled (CallDict c)], terminal := t'\<rparr>)
      | Inr v \<Rightarrow>
          (call_query (pr_icon_service pr) c True,
           w\<lparr>trace := trace w @ [CallBuilt c, HookCalled (CallDict c), Call c True], terminal := t'\<rparr>))"
  using assms
  by (simp add: PrepReader_call_def run_hook_def log_def IconService_call_def Let_def
      split: sum.splits)

lemma reader_call_no_hook:
  assumes "pr_on_send_request pr = None"
  shows "PrepReader_call ext pr method params w =
     (Inl (TypeError ''NoneType object is not callable''),
      w\<lparr>trace := trace w @ [CallBuilt \<lparr>call_from = pr_from pr, call_to = ZERO_ADDRESS ext,
               call_method = method, call_params = params\<rparr>]\<rparr>)"
  using assms
  by (simp add: PrepReader_call_def log_def Let_def)

lemma reader_call_no_wallet:
  "\<not> list_ex is_wallet_use (new_events w (snd (PrepReader_call ext pr method params w)))"
proof (cases "pr_on_send_request pr")
  case None
  show ?thesis by (simp add: reader_call_no_hook [OF None] new_events_def)
next
  case (Some h)
  obtain r t' where h: "h (CallDict \<lparr>call_from = pr_from pr, call_to = ZERO_ADDRESS ext,
               call_method = method, call_params = params\<rparr>) (terminal w) = (r, t')"
    by (cases "h (CallDict \<lparr>call_from = pr_from pr, call_to = ZERO_ADDRESS ext,
               call_method = method, call_params = params\<rparr>) (terminal w)") auto
  show ?thesis
    by (cases r) (simp_all add: reader_call_hook [OF Some h refl] new_events_def)
qed

lemma confirm_callback_yes:
  assumes "truthy yes"
  shows "confirm_callback ext c yes t =
     (Inr (PBool True),
      t\<lparr>out := out t @ [PrintTitle ''Request'' (COLUMN ext), PrintDict c, PrintLine '''']\<rparr>)"
  using assms by (simp add: confirm_callback_def print_request_def emit_def Let_def)

lemma confirm_callback_ask:
  assumes "\<not> truthy yes" and "inp t = l # ls"
  shows "confirm_callback ext c yes t =
     (Inr (PBool (l \<noteq> ''n'')),
      t\<lparr>out := out t @ [PrintTitle ''Request'' (COLUMN ext), PrintDict c, PrintLine '''',
                        Prompt ''> Continue? [Y/n]''],
        inp := ls\<rparr>)"
  using assms
  by (simp add: confirm_callback_def print_request_def input_def emit_def Let_def)

lemma create_writer_by_args_hook:
  assumes "create_writer_by_args ext args w = (Inr pw, w')"
  shows "pw_on_send_request pw =
     Some (\<lambda>c. confirm_callback ext c
                  (case map_of args ''yes'' of Some y \<Rightarrow> y | None \<Rightarrow> PBool False))"
  using assms
  by (auto simp: create_writer_by_args_def PrepWriter_set_on_send_request_def hasattr_def
      getattr_def Let_def split: sum.splits prod.splits option.splits if_splits)

lemma create_writer_by_args_password:
  assumes "get_common_args ext args = Inr (url, nid, keystore_path)"
    and "map_of args ''password'' = Some password" and "password \<noteq> PNone"
  shows "create_writer_by_args ext args w =
     (case create_writer ext url nid keystore_path password w of
        (Inl e, w2) \<Rightarrow> (Inl e, w2)
      | (Inr writer, w2) \<Rightarrow>
          (Inr (PrepWriter_set_on_send_request writer
                  (\<lambda>c. confirm_callback ext c
                           (case map_of args ''yes'' of Some y \<Rightarrow> y | None \<Rightarrow> PBool False))), w2))"
  using assms
  by (auto simp: create_writer_by_args_def hasattr_def getattr_def Let_def
      split: sum.splits prod.splits option.splits)

lemma create_writer_by_args_prompt:
  assumes "get_common_args ext args = Inr (url, nid, keystore_path)"
    and "map_of args ''password'' = Some PNone" and "inp (terminal w) = l # ls"
  shows "create_writer_by_args ext args w =
     (case create_writer ext url nid keystore_path (PStr l)
             (w\<lparr>terminal := (terminal w)\<lparr>out := out (terminal w) @ [Prompt ''> Password: ''],
                                          inp := ls\<rparr>\<rparr>) of
        (Inl e, w2) \<Rightarrow> (Inl e, w2)
      | (Inr writer, w2) \<Rightarrow>
          (Inr (PrepWriter_set_on_send_request writer
                  (\<lambda>c. confirm_callback ext c
                           (case map_of args ''yes'' of Some y \<Rightarrow> y | None \<Rightarrow> PBool False))), w2))"
  using assms
  by (auto simp: create_writer_by_args_def hasattr_def getattr_def getpass_def input_def emit_def
      Let_def split: sum.splits prod.splits option.splits)

lemma create_writer_by_args_no_password:
  assumes "get_common_args ext args = Inr (url, nid, keystore_path)"
    and "map_of args ''password'' = None"
  shows "create_writer_by_args ext args w = (Inl (AttributeError ''password''), w)"
  using assms by (simp add: create_writer_by_args_def getattr_def)

lemma create_writer_by_args_eof:
  assumes "get_common_args ext args = Inr (url, nid, keystore_path)"
    and "map_of args ''password'' = Some PNone" and "inp (terminal w) = []"
  shows "create_writer_by_args ext args w =
     (Inl EOFError,
      w\<lparr>terminal := (terminal w)\<lparr>out := out (terminal w) @ [Prompt ''> Password: '']\<rparr>\<rparr>)"
  using assms
  by (simp add: create_writer_by_args_def hasattr_def getattr_def getpass_def input_def emit_def
      Let_def)

lemma get_common_args_file_error:
  assumes "map_of args ''config'' = Some path" and "path \<noteq> PNone"
    and "json_load_file ext path = Inl e"
  shows "get_common_args ext args = Inl e"
  using assms by (simp add: get_common_args_def hasattr_def getattr_def)

lemma replace_attribute_missing:
  assumes "map_of args attr = None \<or> map_of args attr = Some PNone"
    and "map_of conf attr = None"
  shows "replace_attribute attr args conf = Inl (KeyError attr)"
  using assms by (auto simp: replace_attribute_def hasattr_def getattr_def getitem_def)

lemma confirm_callback_eof:
  assumes "\<not> truthy yes" and "inp t = []"
  shows "confirm_callback ext c yes t =
     (Inl EOFError,
      t\<lparr>out := out t @ [PrintTitle ''Request'' (COLUMN ext), PrintDict c, PrintLine '''',
                        Prompt ''> Continue? [Y/n]'']\<rparr>)"
  using assms
  by (simp add: confirm_callback_def print_request_def input_def emit_def Let_def)

text \<open>
  Claim C7. When \<open>KeyWallet.load\<close> raises \<open>KeyStoreException\<close>, \<open>create_writer\<close> prints the
  message of the exception and leaves with \<open>SystemExit 1\<close>, having opened the service
  handle and tried the keystore but made no call to the network; \<open>create_writer_by_args\<close>
  hands that exit on. On every other error path of the module the error is raised
  unchanged: another exception of \<open>KeyWallet.load\<close>; in \<open>create_writer_by_args\<close> an error of
  \<open>get_common_args\<close>, a namespace without \<open>password\<close>, end of input at the password
  prompt and any error of \<open>create_writer\<close>; in \<open>create_reader_by_args\<close> an error of
  \<open>get_common_args\<close>; in \<open>get_common_args\<close> an unreadable configuration file and a key
  found nowhere; in a write operation an exception of the hook, of the signing or of
  \<open>send_transaction\<close>; in a read query an empty slot, an exception of the hook or of the
  query; in the two transaction lookups an exception of the RPC client; in the
  confirmation callback end of input at the prompt.
\<close>

theorem keystore_failure_exits_with_status_1:
  "(sdk_KeyWallet_load ext keystore_path password = Inl (KeyStoreException msg) \<longrightarrow>
      create_writer ext url nid keystore_path password w =
        (Inl (SystemExit 1),
         w\<lparr>trace := trace w @ [ServiceOpened (get_url ext url), WalletLoad keystore_path password],
           terminal := (terminal w)\<lparr>out := out (terminal w) @ [PrintLine msg]\<rparr>\<rparr>)
      \<and> \<not> list_ex is_network_call
            (new_events w (snd (create_writer ext url nid keystore_path password w))))
   \<and> (sdk_KeyWallet_load ext keystore_path password = Inl e \<longrightarrow>
      (\<forall>m. e \<noteq> KeyStoreException m) \<longrightarrow>
      create_writer ext url nid keystore_path password w =
        (Inl e,
         w\<lparr>trace := trace w @ [ServiceOpened (get_url ext url), WalletLoad keystore_path password]\<rparr>))
   \<and> (get_common_args ext args = Inl e \<longrightarrow> create_writer_by_args ext args w = (Inl e, w))
   \<and> (get_common_args ext args = Inr (url, nid, keystore_path) \<longrightarrow>
      map_of args ''password'' = None \<longrightarrow>
      create_writer_by_args ext args w = (Inl (AttributeError ''password''), w))
   \<and> (get_common_args ext args = Inr (url, nid, keystore_path) \<longrightarrow>
      map_of args ''password'' = Some PNone \<longrightarrow> inp (terminal w) = [] \<longrightarrow>
      create_writer_by_args ext args w =
        (Inl EOFError,
         w\<lparr>terminal := (terminal w)\<lparr>out := out (terminal w) @ [Prompt ''> Password: '']\<rparr>\<rparr>))
   \<and> (get_common_args ext args = Inr (url, nid, keystore_path) \<longrightarrow>
      map_of args ''password'' = Some password \<longrightarrow> password \<noteq> PNone \<longrightarrow>
      create_writer ext url nid keystore_path password w = (Inl e, w') \<longrightarrow>
      create_writer_by_args ext args w = (Inl e, w'))
   \<and> (get_common_args ext args = Inr (url, nid, keystore_path) \<longrightarrow>
      map_of args ''password'' = Some PNone \<longrightarrow> inp (terminal w) = l # ls \<longrightarrow>
      create_writer ext url nid keystore_path (PStr l)
        (w\<lparr>terminal := (terminal w)\<lparr>out := out (terminal w) @ [Prompt ''> Password: ''],
                                     inp := ls\<rparr>\<rparr>) = (Inl e, w') \<longrightarrow>
      create_writer_by_args ext args w = (Inl e, w'))
   \<and> (get_common_args ext args = Inr (url, nid, keystore_path) \<longrightarrow>
      map_of args ''password'' = Some password \<longrightarrow> password \<noteq> PNone \<longrightarrow>
      sdk_KeyWallet_load ext keystore_path password = Inl (KeyStoreException msg) \<longrightarrow>
      create_writer_by_args ext args w =
        (Inl (SystemExit 1),
         w\<lparr>trace := trace w @ [ServiceOpened (get_url ext url), WalletLoad keystore_path password],
           terminal := (terminal w)\<lparr>out := out (terminal w) @ [PrintLine msg]\<rparr>\<rparr>))
   \<and> (get_common_args ext args = Inl e \<longrightarrow> create_reader_by_args ext args w = (Inl e, w))
   \<and> (map_of args ''config'' = Some path \<longrightarrow> path \<noteq> PNone \<longrightarrow>
      json_load_file ext path = Inl e \<longrightarrow> get_common_args ext args = Inl e)
   \<and> (map_of args attr = None \<or> map_of args attr = Some PNone \<longrightarrow> map_of conf attr = None \<longrightarrow>
      replace_attribute attr args conf = Inl (KeyError attr))
   \<and> (pw_on_send_request pw = Some h \<longrightarrow>
      h (TransactionDict (table_envelope ext pw op)) (terminal w) = (Inl e, t') \<longrightarrow>
      perform ext pw op w =
        (Inl e,
         w\<lparr>trace := trace w @ [TxBuilt (table_envelope ext pw op),
                                HookCalled (TransactionDict (table_envelope ext pw op))],
           terminal := t'\<rparr>))
   \<and> (pw_on_send_request pw = Some h \<longrightarrow>
      h (TransactionDict (table_envelope ext pw op)) (terminal w) = (Inr v, t') \<longrightarrow> truthy v \<longrightarrow>
      sign (pw_owner pw) (table_envelope ext pw op) = Inl e \<longrightarrow>
      perform ext pw op w =
        (Inl e,
         w\<lparr>trace := trace w @ [TxBuilt (table_envelope ext pw op),
                                HookCalled (TransactionDict (table_envelope ext pw op)),
                                Signed (table_envelope ext pw op) (get_address (pw_owner pw))],
           terminal := t'\<rparr>))
   \<and> (pw_on_send_request pw = Some h \<longrightarrow>
      h (TransactionDict (table_envelope ext pw op)) (terminal w) = (Inr v, t') \<longrightarrow> truthy v \<longrightarrow>
      sign (pw_owner pw) (table_envelope ext pw op) = Inr sg \<longrightarrow>
      send_transaction (pw_icon_service pw)
        \<lparr>stx_transaction = table_envelope ext pw op, stx_signature = sg\<rparr> True = Inl e \<longrightarrow>
      fst (perform ext pw op w) = Inl e)
   \<and> (pr_on_send_request pr = None \<longrightarrow>
      fst (PrepReader_call ext pr query params w) =
        Inl (TypeError ''NoneType object is not callable''))
   \<and> (pr_on_send_request pr = Some g \<longrightarrow>
      g (CallDict \<lparr>call_from = pr_from pr, call_to = ZERO_ADDRESS ext,
                   call_method = query, call_params = params\<rparr>) (terminal w) = (Inl e, t') \<longrightarrow>
      PrepReader_call ext pr query params w =
        (Inl e,
         w\<lparr>trace := trace w @
              [CallBuilt \<lparr>call_from = pr_from pr, call_to = ZERO_ADDRESS ext,
                          call_method = query, call_params = params\<rparr>,
               HookCalled (CallDict \<lparr>call_from = pr_from pr, call_to = ZERO_ADDRESS ext,
                                     call_method = query, call_params = params\<rparr>)],
           terminal := t'\<rparr>))
   \<and> (pr_on_send_request pr = Some g \<longrightarrow>
      g (CallDict \<lparr>call_from = pr_from pr, call_to = ZERO_ADDRESS ext,
                   call_method = query, call_params = params\<rparr>) (terminal w) = (Inr v, t') \<longrightarrow>
      call_query (pr_icon_service pr)
        \<lparr>call_from = pr_from pr, call_to = ZERO_ADDRESS ext,
         call_method = query, call_params = params\<rparr> True = Inl e \<longrightarrow>
      fst (PrepReader_call ext pr query params w) = Inl e)
   \<and> (get_transaction_result (pr_icon_service pr) tx_hash True = Inl e \<longrightarrow>
      fst (get_tx_result pr tx_hash w) = Inl e)
   \<and> (get_transaction (pr_icon_service pr) tx_hash True = Inl e \<longrightarrow>
      fst (get_tx_by_hash pr tx_hash w) = Inl e)
   \<and> (\<not> truthy yes \<longrightarrow> inp t = [] \<longrightarrow>
      confirm_callback ext c yes t =
        (Inl EOFError,
         t\<lparr>out := out t @ [PrintTitle ''Request'' (COLUMN ext), PrintDict c, PrintLine '''',
                           Prompt ''> Continue? [Y/n]'']\<rparr>))"
proof (intro conjI impI)
  assume k: "sdk_KeyWallet_load ext keystore_path password = Inl (KeyStoreException msg)"
  show "create_writer ext url nid keystore_path password w =
        (Inl (SystemExit 1),
         w\<lparr>trace := trace w @ [ServiceOpened (get_url ext url), WalletLoad keystore_path password],
           terminal := (terminal w)\<lparr>out := out (terminal w) @ [PrintLine msg]\<rparr>\<rparr>)"
    by (simp add: create_writer_keystore_error [OF k] emit_def)
  show "\<not> list_ex is_network_call
            (new_events w (snd (create_writer ext url nid keystore_path password w)))"
    by (simp add: create_writer_keystore_error [OF k] new_events_def)
next
  assume "sdk_KeyWallet_load ext keystore_path password = Inl e"
    and "\<forall>m. e \<noteq> KeyStoreException m"
  then show "create_writer ext url nid keystore_path password w =
        (Inl e,
         w\<lparr>trace := trace w @ [ServiceOpened (get_url ext url), WalletLoad keystore_path password]\<rparr>)"
    by (rule create_writer_other_error)
next
  assume "get_common_args ext args = Inl e"
  then show "create_writer_by_args ext args w = (Inl e, w)"
    by (simp add: create_writer_by_args_def)
next
  assume "get_common_args ext args = Inr (url, nid, keystore_path)"
    and "map_of args ''password'' = None"
  then show "create_writer_by_args ext args w = (Inl (AttributeError ''password''), w)"
    by (rule create_writer_by_args_no_password)
next
  assume "get_common_args ext args = Inr (url, nid, keystore_path)"
    and "map_of args ''password'' = Some PNone" and "inp (terminal w) = []"
  then show "create_writer_by_args ext args w =
        (Inl EOFError,
         w\<lparr>terminal := (terminal w)\<lparr>out := out (terminal w) @ [Prompt ''> Password: '']\<rparr>\<rparr>)"
    by (rule create_writer_by_args_eof)
next
  assume a: "get_common_args ext args = Inr (url, nid, keystore_path)"
    "map_of args ''password'' = Some password" "password \<noteq> PNone"
    and b: "create_writer ext url nid keystore_path password w = (Inl e, w')"
  show "create_writer_by_args ext args w = (Inl e, w')"
    by (simp add: create_writer_by_args_password [OF a] b)
next
  assume a: "get_common_args ext args = Inr (url, nid, keystore_path)"
    "map_of args ''password'' = Some PNone" "inp (terminal w) = l # ls"
    and b: "create_writer ext url nid keystore_path (PStr l)
        (w\<lparr>terminal := (terminal w)\<lparr>out := out (terminal w) @ [Prompt ''> Password: ''],
                                     inp := ls\<rparr>\<rparr>) = (Inl e, w')"
  show "create_writer_by_args ext args w = (Inl e, w')"
    by (simp add: create_writer_by_args_prompt [OF a] b)
next
  assume a: "get_common_args ext args = Inr (url, nid, keystore_path)"
    "map_of args ''password'' = Some password" "password \<noteq> PNone"
    and k: "sdk_KeyWallet_load ext keystore_path password = Inl (KeyStoreException msg)"
  show "create_writer_by_args ext args w =
        (Inl (SystemExit 1),
         w\<lparr>trace := trace w @ [ServiceOpened (get_url ext url), WalletLoad keystore_path password],
           terminal := (terminal w)\<lparr>out := out (terminal w) @ [PrintLine msg]\<rparr>\<rparr>)"
    by (simp add: create_writer_by_args_password [OF a] create_writer_keystore_error [OF k]
        emit_def)
next
  assume "get_common_args ext args = Inl e"
  then show "create_reader_by_args ext args w = (Inl e, w)"
    by (simp add: create_reader_by_args_def)
next
  assume "map_of args ''config'' = Some path" and "path \<noteq> PNone"
    and "json_load_file ext path = Inl e"
  then show "get_common_args ext args = Inl e"
    by (rule get_common_args_file_error)
next
  assume "map_of args attr = None \<or> map_of args attr = Some PNone" and "map_of conf attr = None"
  then show "replace_attribute attr args conf = Inl (KeyError attr)"
    by (rule replace_attribute_missing)
next
  assume slot: "pw_on_send_request pw = Some h"
    and hook: "h (TransactionDict (table_envelope ext pw op)) (terminal w) = (Inl e, t')"
  show "perform ext pw op w =
        (Inl e,
         w\<lparr>trace := trace w @ [TxBuilt (table_envelope ext pw op),
                                HookCalled (TransactionDict (table_envelope ext pw op))],
           terminal := t'\<rparr>)"
    using perform_hook [OF slot hook] by simp
next
  assume slot: "pw_on_send_request pw = Some h"
    and hook: "h (TransactionDict (table_envelope ext pw op)) (terminal w) = (Inr v, t')"
    and v: "truthy v"
    and s: "sign (pw_owner pw) (table_envelope ext pw op) = Inl e"
  show "perform ext pw op w =
        (Inl e,
         w\<lparr>trace := trace w @ [TxBuilt (table_envelope ext pw op),
                                HookCalled (TransactionDict (table_envelope ext pw op)),
                                Signed (table_envelope ext pw op) (get_address (pw_owner pw))],
           terminal := t'\<rparr>)"
    using perform_hook [OF slot hook] v s by simp
next
  assume slot: "pw_on_send_request pw = Some h"
    and hook: "h (TransactionDict (table_envelope ext pw op)) (terminal w) = (Inr v, t')"
    and v: "truthy v"
    and s: "sign (pw_owner pw) (table_envelope ext pw op) = Inr sg"
    and send: "send_transaction (pw_icon_service pw)
        \<lparr>stx_transaction = table_envelope ext pw op, stx_signature = sg\<rparr> True = Inl e"
  show "fst (perform ext pw op w) = Inl e"
    using perform_hook [OF slot hook] v s send by simp
next
  assume "pr_on_send_request pr = None"
  then show "fst (PrepReader_call ext pr query params w) =
        Inl (TypeError ''NoneType object is not callable'')"
    by (simp add: reader_call_no_hook)
next
  assume slot: "pr_on_send_request pr = Some g"
    and hook: "g (CallDict \<lparr>call_from = pr_from pr, call_to = ZERO_ADDRESS ext,
                   call_method = query, call_params = params\<rparr>) (terminal w) = (Inl e, t')"
  show "PrepReader_call ext pr query params w =
        (Inl e,
         w\<lparr>trace := trace w @
              [CallBuilt \<lparr>call_from = pr_from pr, call_to = ZERO_ADDRESS ext,
                          call_method = query, call_params = params\<rparr>,
               HookCalled (CallDict \<lparr>call_from = pr_from pr, call_to = ZERO_ADDRESS ext,
                                     call_method = query, call_params = params\<rparr>)],
           terminal := t'\<rparr>)"
    by (simp add: reader_call_hook [OF slot hook refl])
next
  assume slot: "pr_on_send_request pr = Some g"
    and hook: "g (CallDict \<lparr>call_from = pr_from pr, call_to = ZERO_ADDRESS ext,
                   call_method = query, call_params = params\<rparr>) (terminal w) = (Inr v, t')"
    and q: "call_query (pr_icon_service pr)
        \<lparr>call_from = pr_from pr, call_to = ZERO_ADDRESS ext,
         call_method = query, call_params = params\<rparr> True = Inl e"
  show "fst (PrepReader_call ext pr query params w) = Inl e"
    by (simp add: reader_call_hook [OF slot hook refl] q)
next
  assume "get_transaction_result (pr_icon_service pr) tx_hash True = Inl e"
  then show "fst (get_tx_result pr tx_hash w) = Inl e"
    by (simp add: get_tx_result_def PrepReader_tx_result_def
        IconService_get_transaction_result_def)
next
  assume "get_transaction (pr_icon_service pr) tx_hash True = Inl e"
  then show "fst (get_tx_by_hash pr tx_hash w) = Inl e"
    by (simp add: get_tx_by_hash_def PrepReader_tx_by_hash_def
        IconService_get_transaction_def)
next
  assume "\<not> truthy yes" and "inp t = []"
  then show "confirm_callback ext c yes t =
        (Inl EOFError,
         t\<lparr>out := out t @ [PrintTitle ''Request'' (COLUMN ext), PrintDict c, PrintLine '''',
                           Prompt ''> Continue? [Y/n]'']\<rparr>)"
    by (rule confirm_callback_eof)
qed

text \<open>
  Claim C7 on the concrete session: a wrong password given to \<open>create_writer\<close>, on the
  command line and at the prompt; a keystore path that is a directory; a missing
  configuration file; a namespace without \<open>password\<close>; end of input at either prompt; a
  configuration without \<open>keystore\<close>; a wallet whose signing raises; an RPC client that
  times out; a hook that raises; a reader without hook.
\<close>

theorem keystore_failure_exits_with_status_1_witness:
  "create_writer demo_ext (PStr ''A'') (PInt 1) (PStr ''keystore.json'') (PStr ''wrong'')
       (demo_world []) =
     (Inl (SystemExit 1),
      \<lparr>trace = [ServiceOpened (PStr ''A''), WalletLoad (PStr ''keystore.json'') (PStr ''wrong'')],
       terminal = \<lparr>out = [PrintLine ''Fail to load keystore''], inp = []\<rparr>\<rparr>)
   \<and> create_writer (demo_ext\<lparr>sdk_KeyWallet_load := \<lambda>path password. Inl (Raised ''IsADirectoryError'')\<rparr>)
       (PStr ''A'') (PInt 1) (PStr ''keystore.json'') (PStr ''secret'') (demo_world []) =
     (Inl (Raised ''IsADirectoryError''),
      \<lparr>trace = [ServiceOpened (PStr ''A''), WalletLoad (PStr ''keystore.json'') (PStr ''secret'')],
       terminal = \<lparr>out = [], inp = []\<rparr>\<rparr>)
   \<and> create_writer_by_args demo_ext [(''config'', PStr ''missing.json'')] (demo_world []) =
     (Inl (Raised ''FileNotFoundError''), demo_world [])
   \<and> create_writer_by_args demo_ext [(''nid'', PInt 2)] (demo_world []) =
     (Inl (AttributeError ''password''), demo_world [])
   \<and> create_writer_by_args demo_ext [(''password'', PNone)] (demo_world []) =
     (Inl EOFError, \<lparr>trace = [], terminal = \<lparr>out = [Prompt ''> Password: ''], inp = []\<rparr>\<rparr>)
   \<and> create_writer_by_args demo_ext [(''password'', PStr ''wrong'')] (demo_world []) =
     (Inl (SystemExit 1),
      \<lparr>trace = [ServiceOpened (PStr ''A''), WalletLoad PNone (PStr ''wrong'')],
       terminal = \<lparr>out = [PrintLine ''Fail to load keystore''], inp = []\<rparr>\<rparr>)
   \<and> create_writer_by_args demo_ext [(''password'', PNone)] (demo_world [''wrong'']) =
     (Inl (SystemExit 1),
      \<lparr>trace = [ServiceOpened (PStr ''A''), WalletLoad PNone (PStr ''wrong'')],
       terminal = \<lparr>out = [Prompt ''> Password: '', PrintLine ''Fail to load keystore''],
                    inp = []\<rparr>\<rparr>)
   \<and> create_writer_by_args demo_ext
       [(''keystore'', PStr ''keystore.json''), (''password'', PStr ''wrong'')] (demo_world []) =
     (Inl (SystemExit 1),
      \<lparr>trace = [ServiceOpened (PStr ''A''), WalletLoad (PStr ''keystore.json'') (PStr ''wrong'')],
       terminal = \<lparr>out = [PrintLine ''Fail to load keystore''], inp = []\<rparr>\<rparr>)
   \<and> create_reader_by_args demo_ext [(''config'', PStr ''missing.json'')] (demo_world []) =
     (Inl (Raised ''FileNotFoundError''), demo_world [])
   \<and> get_common_args demo_ext [(''config'', PStr ''missing.json'')] =
     Inl (Raised ''FileNotFoundError'')
   \<and> replace_attribute ''keystore'' [(''nid'', PInt 2)] [(''url'', PStr ''B''), (''nid'', PInt 1)] =
     Inl (KeyError ''keystore'')
   \<and> fst (perform demo_ext (demo_writer (Some (\<lambda>c. confirm_callback demo_ext c (PBool False))))
            (SetPrep (PDict [(''name'', PStr ''node'')])) (demo_world [])) = Inl EOFError
   \<and> fst (perform demo_ext
            ((demo_writer (Some (\<lambda>c. confirm_callback demo_ext c (PBool True))))
               \<lparr>pw_owner := demo_broken_wallet\<rparr>)
            (SetPrep (PDict [(''name'', PStr ''node'')])) (demo_world [])) =
       Inl (Raised ''signing failed'')
   \<and> fst (perform demo_ext
            ((demo_writer (Some (\<lambda>c. confirm_callback demo_ext c (PBool True))))
               \<lparr>pw_icon_service := demo_failing_service\<rparr>)
            (SetPrep (PDict [(''name'', PStr ''node'')])) (demo_world [])) = Inl (Raised ''timeout'')
   \<and> fst (PrepReader_call demo_ext (demo_reader None) ''getPReps'' PNone (demo_world [])) =
       Inl (TypeError ''NoneType object is not callable'')
   \<and> fst (PrepReader_call demo_ext (demo_reader (Some (\<lambda>c t. (Inl (Raised ''BrokenPipeError''), t))))
            ''getPReps'' PNone (demo_world [])) = Inl (Raised ''BrokenPipeError'')
   \<and> fst (PrepReader_call demo_ext
            ((demo_reader (Some (print_request_callback demo_ext)))
               \<lparr>pr_icon_service := demo_failing_service\<rparr>)
            ''getPReps'' PNone (demo_world [])) = Inl (Raised ''timeout'')
   \<and> fst (get_tx_result ((demo_reader None)\<lparr>pr_icon_service := demo_failing_service\<rparr>)
            (PStr ''0xabc'') (demo_world [])) = Inl (Raised ''timeout'')
   \<and> fst (get_tx_by_hash ((demo_reader None)\<lparr>pr_icon_service := demo_failing_service\<rparr>)
            (PStr ''0xabc'') (demo_world [])) = Inl (Raised ''timeout'')
   \<and> fst (confirm_callback demo_ext (TransactionDict demo_update) (PBool False) (demo_terminal [])) =
       Inl EOFError"
proof -
  note rule = keystore_failure_exits_with_status_1
  note conf_defs = get_common_args_def replace_attribute_def hasattr_def getattr_def getitem_def
  let ?op = "SetPrep (PDict [(''name'', PStr ''node'')])"
  let ?yes = "\<lambda>c. confirm_callback demo_ext c (PBool True)"
  let ?ask = "\<lambda>c. confirm_callback demo_ext c (PBool False)"
  let ?printed = "[PrintTitle ''Request'' 80, PrintDict (TransactionDict demo_update),
                   PrintLine '''']"
  have c1: "create_writer demo_ext (PStr ''A'') (PInt 1) (PStr ''keystore.json'') (PStr ''wrong'')
       (demo_world []) =
     (Inl (SystemExit 1),
      \<lparr>trace = [ServiceOpened (PStr ''A''), WalletLoad (PStr ''keystore.json'') (PStr ''wrong'')],
       terminal = \<lparr>out = [PrintLine ''Fail to load keystore''], inp = []\<rparr>\<rparr>)"
    using rule [where ext = demo_ext and keystore_path = "PStr ''keystore.json''"
        and password = "PStr ''wrong''" and msg = "''Fail to load keystore''"
        and url = "PStr ''A''" and nid = "PInt 1" and w = "demo_world []",
        THEN conjunct1]
    by (simp add: demo_defs)
  have c2: "create_writer (demo_ext\<lparr>sdk_KeyWallet_load := \<lambda>path password. Inl (Raised ''IsADirectoryError'')\<rparr>)
       (PStr ''A'') (PInt 1) (PStr ''keystore.json'') (PStr ''secret'') (demo_world []) =
     (Inl (Raised ''IsADirectoryError''),
      \<lparr>trace = [ServiceOpened (PStr ''A''), WalletLoad (PStr ''keystore.json'') (PStr ''secret'')],
       terminal = \<lparr>out = [], inp = []\<rparr>\<rparr>)"
    using rule [where ext = "demo_ext\<lparr>sdk_KeyWallet_load := \<lambda>path password. Inl (Raised ''IsADirectoryError'')\<rparr>"
        and keystore_path = "PStr ''keystore.json''" and password = "PStr ''secret''"
        and e = "Raised ''IsADirectoryError''"
        and url = "PStr ''A''" and nid = "PInt 1" and w = "demo_world []",
        THEN conjunct2, THEN conjunct1]
    by (simp add: demo_defs)
  have c3: "create_writer_by_args demo_ext [(''config'', PStr ''missing.json'')] (demo_world []) =
     (Inl (Raised ''FileNotFoundError''), demo_world [])"
    using rule [where ext = demo_ext and args = "[(''config'', PStr ''missing.json'')]"
        and e = "Raised ''FileNotFoundError''" and w = "demo_world []",
        THEN conjunct2, THEN conjunct2, THEN conjunct1]
    by (simp add: conf_defs demo_ext_def)
  have c4: "create_writer_by_args demo_ext [(''nid'', PInt 2)] (demo_world []) =
     (Inl (AttributeError ''password''), demo_world [])"
    using rule [where ext = demo_ext and args = "[(''nid'', PInt 2)]" and url = "PStr ''A''"
        and nid = "PInt 2" and keystore_path = PNone and w = "demo_world []",
        THEN conjunct2, THEN conjunct2, THEN conjunct2, THEN conjunct1]
    by (simp add: conf_defs demo_ext_def)
  have c5: "create_writer_by_args demo_ext [(''password'', PNone)] (demo_world []) =
     (Inl EOFError, \<lparr>trace = [], terminal = \<lparr>out = [Prompt ''> Password: ''], inp = []\<rparr>\<rparr>)"
    using rule [where ext = demo_ext and args = "[(''password'', PNone)]" and url = "PStr ''A''"
        and nid = "PInt 1" and keystore_path = PNone and w = "demo_world []",
        THEN conjunct2, THEN conjunct2, THEN conjunct2, THEN conjunct2, THEN conjunct1]
    by (simp add: conf_defs demo_defs)
  have made: "\<And>path out0. create_writer demo_ext (PStr ''A'') (PInt 1) path (PStr ''wrong'')
        \<lparr>trace = [], terminal = \<lparr>out = out0, inp = []\<rparr>\<rparr> =
      (Inl (SystemExit 1),
       \<lparr>trace = [ServiceOpened (PStr ''A''), WalletLoad path (PStr ''wrong'')],
        terminal = \<lparr>out = out0 @ [PrintLine ''Fail to load keystore''], inp = []\<rparr>\<rparr>)"
    by (simp add: create_writer_def IconService_def KeyWallet_load_def log_def emit_def
        demo_ext_def Let_def)
  have c6: "create_writer_by_args demo_ext [(''password'', PStr ''wrong'')] (demo_world []) =
     (Inl (SystemExit 1),
      \<lparr>trace = [ServiceOpened (PStr ''A''), WalletLoad PNone (PStr ''wrong'')],
       terminal = \<lparr>out = [PrintLine ''Fail to load keystore''], inp = []\<rparr>\<rparr>)"
    using rule [where ext = demo_ext and args = "[(''password'', PStr ''wrong'')]"
        and url = "PStr ''A''" and nid = "PInt 1" and keystore_path = PNone
        and password = "PStr ''wrong''" and w = "demo_world []" and e = "SystemExit 1"
        and w' = "\<lparr>trace = [ServiceOpened (PStr ''A''), WalletLoad PNone (PStr ''wrong'')],
                  terminal = \<lparr>out = [PrintLine ''Fail to load keystore''], inp = []\<rparr>\<rparr>",
        THEN conjunct2, THEN conjunct2, THEN conjunct2, THEN conjunct2, THEN conjunct2,
        THEN conjunct1]
      made [of PNone "[]"]
    by (simp add: conf_defs demo_ext_def demo_world_def demo_terminal_def)
  have c7: "create_writer_by_args demo_ext [(''password'', PNone)] (demo_world [''wrong'']) =
     (Inl (SystemExit 1),
      \<lparr>trace = [ServiceOpened (PStr ''A''), WalletLoad PNone (PStr ''wrong'')],
       terminal = \<lparr>out = [Prompt ''> Password: '', PrintLine ''Fail to load keystore''],
                    inp = []\<rparr>\<rparr>)"
    using rule [where ext = demo_ext and args = "[(''password'', PNone)]"
        and url = "PStr ''A''" and nid = "PInt 1" and keystore_path = PNone
        and l = "''wrong''" and ls = "[]" and w = "demo_world [''wrong'']" and e = "SystemExit 1"
        and w' = "\<lparr>trace = [ServiceOpened (PStr ''A''), WalletLoad PNone (PStr ''wrong'')],
                  terminal = \<lparr>out = [Prompt ''> Password: '', PrintLine ''Fail to load keystore''],
                               inp = []\<rparr>\<rparr>",
        THEN conjunct2, THEN conjunct2, THEN conjunct2, THEN conjunct2, THEN conjunct2,
        THEN conjunct2, THEN conjunct1]
      made [of PNone "[Prompt ''> Password: '']"]
    by (simp add: conf_defs demo_ext_def demo_world_def demo_terminal_def)
  have c8: "create_writer_by_args demo_ext
       [(''keystore'', PStr ''keystore.json''), (''password'', PStr ''wrong'')] (demo_world []) =
     (Inl (SystemExit 1),
      \<lparr>trace = [ServiceOpened (PStr ''A''), WalletLoad (PStr ''keystore.json'') (PStr ''wrong'')],
       terminal = \<lparr>out = [PrintLine ''Fail to load keystore''], inp = []\<rparr>\<rparr>)"
    using rule [where ext = demo_ext
        and args = "[(''keystore'', PStr ''keystore.json''), (''password'', PStr ''wrong'')]"
        and url = "PStr ''A''" and nid = "PInt 1" and keystore_path = "PStr ''keystore.json''"
        and password = "PStr ''wrong''" and msg = "''Fail to load keystore''"
        and w = "demo_world []",
        THEN conjunct2, THEN conjunct2, THEN conjunct2, THEN conjunct2, THEN conjunct2,
        THEN conjunct2, THEN conjunct2, THEN conjunct1]
    by (simp add: conf_defs demo_ext_def demo_world_def demo_terminal_def)
  have c9: "create_reader_by_args demo_ext [(''config'', PStr ''missing.json'')] (demo_world []) =
     (Inl (Raised ''FileNotFoundError''), demo_world [])"
    using rule [where ext = demo_ext and args = "[(''config'', PStr ''missing.json'')]"
        and e = "Raised ''FileNotFoundError''" and w = "demo_world []",
        THEN conjunct2, THEN conjunct2, THEN conjunct2, THEN conjunct2, THEN conjunct2,
        THEN conjunct2, THEN conjunct2, THEN conjunct2, THEN conjunct1]
    by (simp add: conf_defs demo_ext_def)
  have c10: "get_common_args demo_ext [(''config'', PStr ''missing.json'')] =
     Inl (Raised ''FileNotFoundError'')"
    using rule [where ext = demo_ext and args = "[(''config'', PStr ''missing.json'')]"
        and path = "PStr ''missing.json''" and e = "Raised ''FileNotFoundError''",
        THEN conjunct2, THEN conjunct2, THEN conjunct2, THEN conjunct2, THEN conjunct2,
        THEN conjunct2, THEN conjunct2, THEN conjunct2, THEN conjunct2, THEN conjunct1]
    by (simp add: demo_ext_def)
  have c11: "replace_attribute ''keystore'' [(''nid'', PInt 2)] [(''url'', PStr ''B''), (''nid'', PInt 1)] =
     Inl (KeyError ''keystore'')"
    using rule [where args = "[(''nid'', PInt 2)]" and attr = "''keystore''"
        and conf = "[(''url'', PStr ''B''), (''nid'', PInt 1)]",
        THEN conjunct2, THEN conjunct2, THEN conjunct2, THEN conjunct2, THEN conjunct2,
        THEN conjunct2, THEN conjunct2, THEN conjunct2, THEN conjunct2, THEN conjunct2,
        THEN conjunct1]
    by simp
  have env: "\<And>slot. table_envelope demo_ext (demo_writer slot) ?op = demo_update"
    "\<And>slot. table_envelope demo_ext ((demo_writer slot)\<lparr>pw_owner := demo_broken_wallet\<rparr>) ?op =
       demo_update"
    "\<And>slot. table_envelope demo_ext ((demo_writer slot)\<lparr>pw_icon_service := demo_failing_service\<rparr>) ?op =
       demo_update"
    by (simp_all add: table_envelope_def demo_defs demo_defs2 demo_broken_wallet_def)
  have slots: "\<And>h. pw_on_send_request (demo_writer (Some h)) = Some h"
    "\<And>h. pw_on_send_request ((demo_writer (Some h))\<lparr>pw_owner := demo_broken_wallet\<rparr>) = Some h"
    "\<And>h. pw_on_send_request ((demo_writer (Some h))\<lparr>pw_icon_service := demo_failing_service\<rparr>) =
       Some h"
    by (simp_all add: demo_writer_def)
  have signing: "sign demo_broken_wallet demo_update = Inl (Raised ''signing failed'')"
    "\<And>slot. sign (pw_owner (demo_writer slot)) demo_update = Inr ''signature''"
    by (simp_all add: demo_writer_def demo_wallet_def demo_broken_wallet_def)
  have sending: "\<And>stx. send_transaction demo_failing_service stx True = Inl (Raised ''timeout'')"
    by (simp add: demo_failing_service_def)
  have asked: "?ask (TransactionDict demo_update) (terminal (demo_world [])) =
      (Inl EOFError, \<lparr>out = ?printed @ [Prompt ''> Continue? [Y/n]''], inp = []\<rparr>)"
    by (simp add: terminal_defs demo_defs Let_def)
  have approved: "?yes (TransactionDict demo_update) (terminal (demo_world [])) =
      (Inr (PBool True), \<lparr>out = ?printed, inp = []\<rparr>)"
    by (simp add: terminal_defs demo_defs Let_def)
  have c12: "fst (perform demo_ext (demo_writer (Some ?ask)) ?op (demo_world [])) = Inl EOFError"
    using rule [where pw = "demo_writer (Some ?ask)" and h = ?ask and ext = demo_ext and op = ?op
        and w = "demo_world []" and e = EOFError
        and t' = "\<lparr>out = ?printed @ [Prompt ''> Continue? [Y/n]''], inp = []\<rparr>",
        THEN conjunct2, THEN conjunct2, THEN conjunct2, THEN conjunct2, THEN conjunct2,
        THEN conjunct2, THEN conjunct2, THEN conjunct2, THEN conjunct2, THEN conjunct2,
        THEN conjunct2, THEN conjunct1]
      asked
    by (simp add: env slots)
  have c13: "fst (perform demo_ext ((demo_writer (Some ?yes))\<lparr>pw_owner := demo_broken_wallet\<rparr>)
            ?op (demo_world [])) = Inl (Raised ''signing failed'')"
    using rule [where pw = "(demo_writer (Some ?yes))\<lparr>pw_owner := demo_broken_wallet\<rparr>"
        and h = ?yes and ext = demo_ext and op = ?op and w = "demo_world []"
        and v = "PBool True" and e = "Raised ''signing failed''"
        and t' = "\<lparr>out = ?printed, inp = []\<rparr>",
        THEN conjunct2, THEN conjunct2, THEN conjunct2, THEN conjunct2, THEN conjunct2,
        THEN conjunct2, THEN conjunct2, THEN conjunct2, THEN conjunct2, THEN conjunct2,
        THEN conjunct2, THEN conjunct2, THEN conjunct1]
      approved
    by (simp add: env slots signing)
  have c14: "fst (perform demo_ext
            ((demo_writer (Some ?yes))\<lparr>pw_icon_service := demo_failing_service\<rparr>)
            ?op (demo_world [])) = Inl (Raised ''timeout'')"
    using rule [where pw = "(demo_writer (Some ?yes))\<lparr>pw_icon_service := demo_failing_service\<rparr>"
        and h = ?yes and ext = demo_ext and op = ?op and w = "demo_world []"
        and v = "PBool True" and sg = "''signature''" and e = "Raised ''timeout''"
        and t' = "\<lparr>out = ?printed, inp = []\<rparr>",
        THEN conjunct2, THEN conjunct2, THEN conjunct2, THEN conjunct2, THEN conjunct2,
        THEN conjunct2, THEN conjunct2, THEN conjunct2, THEN conjunct2, THEN conjunct2,
        THEN conjunct2, THEN conjunct2, THEN conjunct2, THEN conjunct1]
      approved
    by (simp add: env slots signing sending)
  have c15: "fst (PrepReader_call demo_ext (demo_reader None) ''getPReps'' PNone (demo_world [])) =
       Inl (TypeError ''NoneType object is not callable'')"
    using rule [where pr = "demo_reader None" and ext = demo_ext and query = "''getPReps''"
        and params = PNone and w = "demo_world []",
        THEN conjunct2, THEN conjunct2, THEN conjunct2, THEN conjunct2, THEN conjunct2,
        THEN conjunct2, THEN conjunct2, THEN conjunct2, THEN conjunct2, THEN conjunct2,
        THEN conjunct2, THEN conjunct2, THEN conjunct2, THEN conjunct2, THEN conjunct1]
    by (simp add: demo_reader_def)
  have c16: "fst (PrepReader_call demo_ext (demo_reader (Some (\<lambda>c t. (Inl (Raised ''BrokenPipeError''), t))))
            ''getPReps'' PNone (demo_world [])) = Inl (Raised ''BrokenPipeError'')"
    using rule [where pr = "demo_reader (Some (\<lambda>c t. (Inl (Raised ''BrokenPipeError''), t)))"
        and g = "\<lambda>c t. (Inl (Raised ''BrokenPipeError''), t)" and ext = demo_ext
        and query = "''getPReps''" and params = PNone and w = "demo_world []"
        and e = "Raised ''BrokenPipeError''" and t' = "terminal (demo_world [])",
        THEN conjunct2, THEN conjunct2, THEN conjunct2, THEN conjunct2, THEN conjunct2,
        THEN conjunct2, THEN conjunct2, THEN conjunct2, THEN conjunct2, THEN conjunct2,
        THEN conjunct2, THEN conjunct2, THEN conjunct2, THEN conjunct2, THEN conjunct2,
        THEN conjunct1]
    by (simp add: demo_reader_def)
  have c17: "fst (PrepReader_call demo_ext
            ((demo_reader (Some (print_request_callback demo_ext)))
               \<lparr>pr_icon_service := demo_failing_service\<rparr>)
            ''getPReps'' PNone (demo_world [])) = Inl (Raised ''timeout'')"
    using rule [where pr = "(demo_reader (Some (print_request_callback demo_ext)))
               \<lparr>pr_icon_service := demo_failing_service\<rparr>"
        and g = "print_request_callback demo_ext" and ext = demo_ext
        and query = "''getPReps''" and params = PNone and w = "demo_world []"
        and e = "Raised ''timeout''" and v = PNone
        and t' = "print_request demo_ext ''Request''
                    (CallDict \<lparr>call_from = ''hx0000000000000000000000000000000000000000'',
                       call_to = ''cx0000000000000000000000000000000000000000'',
                       call_method = ''getPReps'', call_params = PNone\<rparr>)
                    (terminal (demo_world []))",
        THEN conjunct2, THEN conjunct2, THEN conjunct2, THEN conjunct2, THEN conjunct2,
        THEN conjunct2, THEN conjunct2, THEN conjunct2, THEN conjunct2, THEN conjunct2,
        THEN conjunct2, THEN conjunct2, THEN conjunct2, THEN conjunct2, THEN conjunct2,
        THEN conjunct2, THEN conjunct1]
    by (simp add: demo_reader_def demo_failing_service_def print_request_callback_def demo_ext_def)
  have c18: "fst (get_tx_result ((demo_reader None)\<lparr>pr_icon_service := demo_failing_service\<rparr>)
            (PStr ''0xabc'') (demo_world [])) = Inl (Raised ''timeout'')"
    using rule [where pr = "(demo_reader None)\<lparr>pr_icon_service := demo_failing_service\<rparr>"
        and tx_hash = "PStr ''0xabc''" and e = "Raised ''timeout''" and w = "demo_world []",
        THEN conjunct2, THEN conjunct2, THEN conjunct2, THEN conjunct2, THEN conjunct2,
        THEN conjunct2, THEN conjunct2, THEN conjunct2, THEN conjunct2, THEN conjunct2,
        THEN conjunct2, THEN conjunct2, THEN conjunct2, THEN conjunct2, THEN conjunct2,
        THEN conjunct2, THEN conjunct2, THEN conjunct1]
    by (simp add: demo_failing_service_def)
  have c19: "fst (get_tx_by_hash ((demo_reader None)\<lparr>pr_icon_service := demo_failing_service\<rparr>)
            (PStr ''0xabc'') (demo_world [])) = Inl (Raised ''timeout'')"
    using rule [where pr = "(demo_reader None)\<lparr>pr_icon_service := demo_failing_service\<rparr>"
        and tx_hash = "PStr ''0xabc''" and e = "Raised ''timeout''" and w = "demo_world []",
        THEN conjunct2, THEN conjunct2, THEN conjunct2, THEN conjunct2, THEN conjunct2,
        THEN conjunct2, THEN conjunct2, THEN conjunct2, THEN conjunct2, THEN conjunct2,
        THEN conjunct2, THEN conjunct2, THEN conjunct2, THEN conjunct2, THEN conjunct2,
        THEN conjunct2, THEN conjunct2, THEN conjunct2, THEN conjunct1]
    by (simp add: demo_failing_service_def)
  have c20: "fst (confirm_callback demo_ext (TransactionDict demo_update) (PBool False) (demo_terminal [])) =
       Inl EOFError"
    using rule [where yes = "PBool False" and t = "demo_terminal []" and ext = demo_ext
        and c = "TransactionDict demo_update",
        THEN conjunct2, THEN conjunct2, THEN conjunct2, THEN conjunct2, THEN conjunct2,
        THEN conjunct2, THEN conjunct2, THEN conjunct2, THEN conjunct2, THEN conjunct2,
        THEN conjunct2, THEN conjunct2, THEN conjunct2, THEN conjunct2, THEN conjunct2,
        THEN conjunct2, THEN conjunct2, THEN conjunct2, THEN conjunct2]
    by (simp add: demo_terminal_def)
  show ?thesis
    by (intro conjI c1 c2 c3 c4 c5 c6 c7 c8 c9 c10 c11 c12 c13 c14 c15 c16 c17 c18 c19 c20)
qed

text \<open>
  Claim C8. \<open>confirm_callback\<close> prints the pending envelope; with the auto-yes flag set
  it returns \<open>True\<close> and reads nothing; otherwise it prompts, reads one line and returns
  \<open>False\<close> exactly when that line is \<open>n\<close>. A writer made by \<open>create_writer_by_args\<close>
  has this callback in its slot, with the flag taken from the \<open>yes\<close> attribute of the
  namespace (\<open>False\<close> when there is none).
\<close>

theorem confirm_callback_aborts_only_on_n:
  "(truthy yes \<longrightarrow>
      confirm_callback ext c yes t =
        (Inr (PBool True),
         t\<lparr>out := out t @ [PrintTitle ''Request'' (COLUMN ext), PrintDict c, PrintLine '''']\<rparr>))
   \<and> (\<not> truthy yes \<longrightarrow> inp t = l # ls \<longrightarrow>
      confirm_callback ext c yes t =
        (Inr (PBool (l \<noteq> ''n'')),
         t\<lparr>out := out t @ [PrintTitle ''Request'' (COLUMN ext), PrintDict c, PrintLine '''',
                           Prompt ''> Continue? [Y/n]''],
           inp := ls\<rparr>))
   \<and> (create_writer_by_args ext args w = (Inr pw, w') \<longrightarrow>
      pw_on_send_request pw =
        Some (\<lambda>c. confirm_callback ext c
                     (case map_of args ''yes'' of Some y \<Rightarrow> y | None \<Rightarrow> PBool False)))"
proof (intro conjI impI)
  assume "truthy yes"
  then show "confirm_callback ext c yes t =
        (Inr (PBool True),
         t\<lparr>out := out t @ [PrintTitle ''Request'' (COLUMN ext), PrintDict c, PrintLine '''']\<rparr>)"
    by (rule confirm_callback_yes)
next
  assume "\<not> truthy yes" and "inp t = l # ls"
  then show "confirm_callback ext c yes t =
        (Inr (PBool (l \<noteq> ''n'')),
         t\<lparr>out := out t @ [PrintTitle ''Request'' (COLUMN ext), PrintDict c, PrintLine '''',
                           Prompt ''> Continue? [Y/n]''],
           inp := ls\<rparr>)"
    by (rule confirm_callback_ask)
next
  assume "create_writer_by_args ext args w = (Inr pw, w')"
  then show "pw_on_send_request pw =
        Some (\<lambda>c. confirm_callback ext c
                     (case map_of args ''yes'' of Some y \<Rightarrow> y | None \<Rightarrow> PBool False))"
    by (rule create_writer_by_args_hook)
qed

text \<open>
  Claim C8 on the concrete session: the answers \<open>n\<close>, the empty line, \<open>N\<close>, \<open>no\<close> and
  \<open>y\<close>, and the callback of a writer made from a namespace.
\<close>

theorem confirm_callback_aborts_only_on_n_witness:
  "fst (confirm_callback demo_ext (TransactionDict demo_update) (PBool True) (demo_terminal [])) =
     Inr (PBool True)
   \<and> inp (snd (confirm_callback demo_ext (TransactionDict demo_update) (PBool True)
                 (demo_terminal [''n'']))) = [''n'']
   \<and> fst (confirm_callback demo_ext (TransactionDict demo_update) (PBool False)
            (demo_terminal [''n''])) = Inr (PBool False)
   \<and> fst (confirm_callback demo_ext (TransactionDict demo_update) (PBool False)
            (demo_terminal [''''])) = Inr (PBool True)
   \<and> fst (confirm_callback demo_ext (TransactionDict demo_update) (PBool False)
            (demo_terminal [''N''])) = Inr (PBool True)
   \<and> fst (confirm_callback demo_ext (TransactionDict demo_update) (PBool False)
            (demo_terminal [''no''])) = Inr (PBool True)
   \<and> fst (confirm_callback demo_ext (TransactionDict demo_update) (PBool False)
            (demo_terminal [''y'', ''n''])) = Inr (PBool True)
   \<and> inp (snd (confirm_callback demo_ext (TransactionDict demo_update) (PBool False)
                 (demo_terminal [''y'', ''n'']))) = [''n'']
   \<and> map_option (\<lambda>h. h (CallDict demo_query) (demo_terminal []))
        (pw_on_send_request (projr (fst (create_writer_by_args demo_ext demo_args (demo_world []))))) =
      Some (confirm_callback demo_ext (CallDict demo_query) (PBool True) (demo_terminal []))"
proof -
  note rule = confirm_callback_aborts_only_on_n
  have made: "create_writer_by_args demo_ext demo_args (demo_world []) =
      (Inr (projr (fst (create_writer_by_args demo_ext demo_args (demo_world [])))),
       snd (create_writer_by_args demo_ext demo_args (demo_world [])))"
    by (simp add: create_writer_by_args_def create_writer_def get_common_args_def
        replace_attribute_def hasattr_def getattr_def getitem_def IconService_def
        KeyWallet_load_def log_def demo_defs demo_defs2 Let_def)
  have wired: "pw_on_send_request (projr (fst (create_writer_by_args demo_ext demo_args (demo_world [])))) =
      Some (\<lambda>c. confirm_callback demo_ext c
                   (case map_of demo_args ''yes'' of Some y \<Rightarrow> y | None \<Rightarrow> PBool False))"
    using rule [of _ demo_ext _ _ _ _ demo_args "demo_world []"
        "projr (fst (create_writer_by_args demo_ext demo_args (demo_world [])))"
        "snd (create_writer_by_args demo_ext demo_args (demo_world []))"] made
    by blast
  have yes: "\<And>ls. confirm_callback demo_ext (TransactionDict demo_update) (PBool True) (demo_terminal ls) =
      (Inr (PBool True),
       (demo_terminal ls)\<lparr>out := out (demo_terminal ls) @
          [PrintTitle ''Request'' (COLUMN demo_ext), PrintDict (TransactionDict demo_update),
           PrintLine '''']\<rparr>)"
    using rule [of "PBool True" demo_ext "TransactionDict demo_update"] by simp
  have ask: "\<And>l ls. confirm_callback demo_ext (TransactionDict demo_update) (PBool False)
        (demo_terminal (l # ls)) =
      (Inr (PBool (l \<noteq> ''n'')),
       (demo_terminal (l # ls))\<lparr>out := out (demo_terminal (l # ls)) @
          [PrintTitle ''Request'' (COLUMN demo_ext), PrintDict (TransactionDict demo_update),
           PrintLine '''', Prompt ''> Continue? [Y/n]''], inp := ls\<rparr>)"
    using rule [of "PBool False" demo_ext "TransactionDict demo_update"]
    by (simp add: demo_terminal_def)
  show ?thesis
    unfolding yes ask wired
    by (simp add: demo_terminal_def demo_args_def)
qed

text \<open>
  Claim C9. With a hook registered, \<open>get_prep\<close> (method \<open>getPRep\<close>, parameters
  \<open>{address}\<close>) and \<open>get_preps\<close> (method \<open>getPReps\<close>) build the query, call the hook once
  with it, drop whatever value the hook returns and send the query through the RPC
  client's \<open>call\<close>, whose answer they return. \<open>get_tx_result\<close> and \<open>get_tx_by_hash\<close> make
  their lookup and never call the hook. None of the four signs or loads a keystore, and
  neither does \<open>create_reader\<close>, which only opens the service handle.
\<close>

theorem reader_queries_notify_hook_once:
  "(pr_on_send_request pr = Some h \<longrightarrow>
      c1 = \<lparr>call_from = pr_from pr, call_to = ZERO_ADDRESS ext, call_method = ''getPRep'',
            call_params = PDict [(''address'', address)]\<rparr> \<longrightarrow>
      h (CallDict c1) (terminal w) = (Inr v1, t1) \<longrightarrow>
      get_prep ext pr address w =
        (call_query (pr_icon_service pr) c1 True,
         w\<lparr>trace := trace w @ [CallBuilt c1, HookCalled (CallDict c1), Call c1 True],
           terminal := t1\<rparr>))
   \<and> (pr_on_send_request pr = Some h \<longrightarrow>
      c2 = \<lparr>call_from = pr_from pr, call_to = ZERO_ADDRESS ext, call_method = ''getPReps'',
            call_params = params\<rparr> \<longrightarrow>
      h (CallDict c2) (terminal w) = (Inr v2, t2) \<longrightarrow>
      get_preps ext pr params w =
        (call_query (pr_icon_service pr) c2 True,
         w\<lparr>trace := trace w @ [CallBuilt c2, HookCalled (CallDict c2), Call c2 True],
           terminal := t2\<rparr>))
   \<and> get_tx_result pr tx_hash w =
        (get_transaction_result (pr_icon_service pr) tx_hash True,
         w\<lparr>trace := trace w @ [GetTransactionResult tx_hash True]\<rparr>)
   \<and> get_tx_by_hash pr tx_hash w =
        (get_transaction (pr_icon_service pr) tx_hash True,
         w\<lparr>trace := trace w @ [GetTransaction tx_hash True]\<rparr>)
   \<and> \<not> list_ex is_wallet_use (new_events w (snd (get_prep ext pr address w)))
   \<and> \<not> list_ex is_wallet_use (new_events w (snd (get_preps ext pr params w)))
   \<and> \<not> list_ex is_wallet_use (new_events w (snd (get_tx_result pr tx_hash w)))
   \<and> \<not> list_ex is_wallet_use (new_events w (snd (get_tx_by_hash pr tx_hash w)))
   \<and> new_events w (snd (create_reader ext url nid w)) = [ServiceOpened (get_url ext url)]"
proof (intro conjI impI)
  assume "pr_on_send_request pr = Some h"
    and "c1 = \<lparr>call_from = pr_from pr, call_to = ZERO_ADDRESS ext, call_method = ''getPRep'',
            call_params = PDict [(''address'', address)]\<rparr>"
    and "h (CallDict c1) (terminal w) = (Inr v1, t1)"
  then show "get_prep ext pr address w =
        (call_query (pr_icon_service pr) c1 True,
         w\<lparr>trace := trace w @ [CallBuilt c1, HookCalled (CallDict c1), Call c1 True],
           terminal := t1\<rparr>)"
    using reader_call_hook [of pr h c1 w "Inr v1" t1 ext "''getPRep''" "PDict [(''address'', address)]"]
    by (simp add: get_prep_def)
next
  assume "pr_on_send_request pr = Some h"
    and "c2 = \<lparr>call_from = pr_from pr, call_to = ZERO_ADDRESS ext, call_method = ''getPReps'',
            call_params = params\<rparr>"
    and "h (CallDict c2) (terminal w) = (Inr v2, t2)"
  then show "get_preps ext pr params w =
        (call_query (pr_icon_service pr) c2 True,
         w\<lparr>trace := trace w @ [CallBuilt c2, HookCalled (CallDict c2), Call c2 True],
           terminal := t2\<rparr>)"
    using reader_call_hook [of pr h c2 w "Inr v2" t2 ext "''getPReps''" params]
    by (simp add: get_preps_def)
next
  show "get_tx_result pr tx_hash w =
        (get_transaction_result (pr_icon_service pr) tx_hash True,
         w\<lparr>trace := trace w @ [GetTransactionResult tx_hash True]\<rparr>)"
    by (simp add: get_tx_result_def PrepReader_tx_result_def
        IconService_get_transaction_result_def log_def)
  show "get_tx_by_hash pr tx_hash w =
        (get_transaction (pr_icon_service pr) tx_hash True,
         w\<lparr>trace := trace w @ [GetTransaction tx_hash True]\<rparr>)"
    by (simp add: get_tx_by_hash_def PrepReader_tx_by_hash_def
        IconService_get_transaction_def log_def)
  show "\<not> list_ex is_wallet_use (new_events w (snd (get_prep ext pr address w)))"
    by (simp add: get_prep_def reader_call_no_wallet)
  show "\<not> list_ex is_wallet_use (new_events w (snd (get_preps ext pr params w)))"
    by (simp add: get_preps_def reader_call_no_wallet)
  show "\<not> list_ex is_wallet_use (new_events w (snd (get_tx_result pr tx_hash w)))"
    by (simp add: get_tx_result_def PrepReader_tx_result_def
        IconService_get_transaction_result_def log_def new_events_def)
  show "\<not> list_ex is_wallet_use (new_events w (snd (get_tx_by_hash pr tx_hash w)))"
    by (simp add: get_tx_by_hash_def PrepReader_tx_by_hash_def
        IconService_get_transaction_def log_def new_events_def)
  show "new_events w (snd (create_reader ext url nid w)) = [ServiceOpened (get_url ext url)]"
    by (simp add: create_reader_def IconService_def log_def new_events_def Let_def)
qed

text \<open>
  Claim C9 on the concrete session: the printing hook of \<open>create_reader_by_args\<close>, and a
  hook that returns \<open>False\<close>.
\<close>

theorem reader_queries_notify_hook_once_witness:
  "get_prep demo_ext (demo_reader (Some (print_request_callback demo_ext))) (PStr ''hx1234'')
       (demo_world []) =
     (Inr (PDict [(''name'', PStr ''node'')]),
      \<lparr>trace = [CallBuilt demo_query, HookCalled (CallDict demo_query), Call demo_query True],
       terminal = \<lparr>out = [PrintTitle ''Request'' 80, PrintDict (CallDict demo_query),
                           PrintLine ''''],
                    inp = []\<rparr>\<rparr>)
   \<and> get_preps demo_ext (demo_reader (Some (\<lambda>c t. (Inr (PBool False), t)))) PNone
       (demo_world []) =
     (Inr (PDict [(''name'', PStr ''node'')]),
      \<lparr>trace = [CallBuilt demo_list_query, HookCalled (CallDict demo_list_query),
                Call demo_list_query True],
       terminal = \<lparr>out = [], inp = []\<rparr>\<rparr>)"
proof -
  note rule = reader_queries_notify_hook_once
  let ?t1 = "\<lparr>out = [PrintTitle ''Request'' 80, PrintDict (CallDict demo_query), PrintLine ''''],
               inp = []\<rparr>"
  have single: "get_prep demo_ext (demo_reader (Some (print_request_callback demo_ext)))
       (PStr ''hx1234'') (demo_world []) =
     (call_query (pr_icon_service (demo_reader (Some (print_request_callback demo_ext))))
        demo_query True,
      (demo_world [])\<lparr>trace := trace (demo_world []) @
          [CallBuilt demo_query, HookCalled (CallDict demo_query), Call demo_query True],
        terminal := ?t1\<rparr>)"
    using rule [where pr = "demo_reader (Some (print_request_callback demo_ext))"
        and h = "print_request_callback demo_ext" and ext = demo_ext and ?c1.0 = demo_query
        and address = "PStr ''hx1234''" and w = "demo_world []" and ?v1.0 = PNone
        and ?t1.0 = ?t1, THEN conjunct1]
    by (simp add: demo_defs demo_defs2 terminal_defs)
  have listed: "get_preps demo_ext (demo_reader (Some (\<lambda>c t. (Inr (PBool False), t)))) PNone
       (demo_world []) =
     (call_query (pr_icon_service (demo_reader (Some (\<lambda>c t. (Inr (PBool False), t)))))
        demo_list_query True,
      (demo_world [])\<lparr>trace := trace (demo_world []) @
          [CallBuilt demo_list_query, HookCalled (CallDict demo_list_query),
           Call demo_list_query True],
        terminal := terminal (demo_world [])\<rparr>)"
    using rule [where pr = "demo_reader (Some (\<lambda>c t. (Inr (PBool False), t)))"
        and h = "\<lambda>c t. (Inr (PBool False), t)" and ext = demo_ext and ?c2.0 = demo_list_query
        and params = PNone and w = "demo_world []" and ?v2.0 = "PBool False"
        and ?t2.0 = "terminal (demo_world [])", THEN conjunct2, THEN conjunct1]
    by (simp add: demo_defs demo_defs2)
  show ?thesis
    unfolding single listed
    by (simp add: demo_defs)
qed

text \<open>
  Claim C10. The reader that \<open>create_reader\<close> returns has an empty slot, and on a reader
  with an empty slot \<open>get_prep\<close> and \<open>get_preps\<close> raise \<open>TypeError\<close> after building the
  query and before any call to the network.
\<close>

theorem reader_without_hook_raises:
  "pr_on_send_request (fst (create_reader ext url nid w0)) = None
   \<and> (pr_on_send_request pr = None \<longrightarrow>
        get_prep ext pr address w =
          (Inl (TypeError ''NoneType object is not callable''),
           w\<lparr>trace := trace w @
                [CallBuilt \<lparr>call_from = pr_from pr, call_to = ZERO_ADDRESS ext,
                            call_method = ''getPRep'',
                            call_params = PDict [(''address'', address)]\<rparr>]\<rparr>)
        \<and> get_preps ext pr params w =
          (Inl (TypeError ''NoneType object is not callable''),
           w\<lparr>trace := trace w @
                [CallBuilt \<lparr>call_from = pr_from pr, call_to = ZERO_ADDRESS ext,
                            call_method = ''getPReps'', call_params = params\<rparr>]\<rparr>)
        \<and> \<not> list_ex is_network_call (new_events w (snd (get_prep ext pr address w)))
        \<and> \<not> list_ex is_network_call (new_events w (snd (get_preps ext pr params w))))"
  by (simp add: create_reader_def IconService_def PrepReader_init_def get_prep_def get_preps_def
      reader_call_no_hook new_events_def Let_def)

text \<open>
  Claim C10 on the concrete session: a query on the reader that \<open>create_reader\<close> made.
\<close>

theorem reader_without_hook_raises_witness:
  "pr_on_send_request (fst (create_reader demo_ext (PStr ''A'') (PInt 1) (demo_world []))) = None
   \<and> get_prep demo_ext (fst (create_reader demo_ext (PStr ''A'') (PInt 1) (demo_world [])))
       (PStr ''hx1234'') (snd (create_reader demo_ext (PStr ''A'') (PInt 1) (demo_world []))) =
     (Inl (TypeError ''NoneType object is not callable''),
      \<lparr>trace = [ServiceOpened (PStr ''A''), CallBuilt demo_query],
       terminal = \<lparr>out = [], inp = []\<rparr>\<rparr>)"
proof -
  let ?made = "create_reader demo_ext (PStr ''A'') (PInt 1) (demo_world [])"
  note rule = reader_without_hook_raises
    [where ext = demo_ext and url = "PStr ''A''" and nid = "PInt 1" and ?w0.0 = "demo_world []"
       and pr = "fst ?made" and address = "PStr ''hx1234''" and w = "snd ?made"]
  have slot: "pr_on_send_request (fst ?made) = None"
    using rule by simp
  have raised: "get_prep demo_ext (fst ?made) (PStr ''hx1234'') (snd ?made) =
     (Inl (TypeError ''NoneType object is not callable''),
      (snd ?made)\<lparr>trace := trace (snd ?made) @
         [CallBuilt \<lparr>call_from = pr_from (fst ?made), call_to = ZERO_ADDRESS demo_ext,
                     call_method = ''getPRep'',
                     call_params = PDict [(''address'', PStr ''hx1234'')]\<rparr>]\<rparr>)"
    using rule slot by simp
  show ?thesis
    unfolding raised
    by (simp add: slot create_reader_def IconService_def PrepReader_init_def log_def
        demo_defs demo_defs2 Let_def)
qed

end
